theory Spec2Isabelle
  imports Main
begin

section \<open>Data model\<close>

text \<open>
  Modelled from the spec: the entity classes and the \<^verbatim>\<open>Response\<close> class of
  \<^verbatim>\<open>autogenstudio.datamodel\<close>, which are not among the source files; the routes of
  \<^verbatim>\<open>autogenstudio/web/routes\<close> and the tests only use them. A row is one record with
  the union of the columns the data model section lists and the routes and tests touch. A
  column an entity does not have, or has not been given, is \<open>None\<close>. JSON blobs are kept as
  their serialised text.
\<close>

type_synonym json = string

datatype model_class =
  Team | Session | Run | Message | Gallery | Settings | Tenant | Domain_model

datatype RunStatus = CREATED | ACTIVE | COMPLETE

record row =
  cls :: model_class
  row_id :: "int option"
  user_id :: "string option"
  tenant_id :: "int option"
  domain_id :: "int option"
  team_id :: "int option"
  session_id :: "int option"
  run_id :: "int option"
  name :: "string option"
  slug :: "string option"
  version :: "string option"
  run_status :: "RunStatus option"
  config :: "json option"
  component :: "json option"
  task :: "json option"
  team_result :: "json option"
  created_at :: int

text \<open>
  \<open>new_row C\<close> is the constructor call \<^verbatim>\<open>C()\<close> before any keyword argument is
  applied; the keyword arguments of the source become record updates. No clock is modelled:
  \<open>created_at\<close> is whatever the caller stored, 0 when nothing was given.
\<close>

definition new_row :: "model_class \<Rightarrow> row" where
  "new_row c =
     \<lparr>cls = c, row_id = None, user_id = None, tenant_id = None, domain_id = None,
      team_id = None, session_id = None, run_id = None, name = None, slug = None,
      version = None, run_status = None, config = None, component = None, task = None,
      team_result = None, created_at = 0\<rparr>"

text \<open>
  A filter dictionary such as \<^verbatim>\<open>{"id": gallery_id, "tenant_id": tenant_id}\<close> is an
  association list from column names to values.
\<close>

datatype val = IntV int | StrV string

type_synonym filters = "(string \<times> val) list"

text \<open>
  The dictionary \<^verbatim>\<open>{"status": ..., "data": ...}\<close> that most routes return, and the
  \<^verbatim>\<open>Response\<close> object, which has the same two entries and a message.
\<close>

record 'd status_data =
  status :: bool
  data :: 'd

record 'd response = "'d status_data" +
  message :: string

text \<open>The dictionary \<^verbatim>\<open>{"status": ..., "message": ...}\<close> of \<^verbatim>\<open>delete_team\<close>.\<close>

datatype status_message = StatusMessage bool string

text \<open>
  An exception other than \<^verbatim>\<open>HTTPException\<close>, with its text \<^verbatim>\<open>str(e)\<close>. Python's
  \<^verbatim>\<open>except Exception\<close> catches the instances of \<^verbatim>\<open>Exception\<close> only: \<open>Exception\<close>
  stands for those, \<open>BaseException\<close> for the others (\<^verbatim>\<open>KeyboardInterrupt\<close>,
  \<^verbatim>\<open>SystemExit\<close>, a cancellation), which no handler of the routes catches.
\<close>

datatype exc = Exception string | BaseException string

text \<open>
  How a handler can fail: by raising \<^verbatim>\<open>HTTPException(status_code, detail)\<close>, or by
  letting another exception leave the handler (\<open>Raised\<close>).
\<close>

datatype failure = HTTPException nat string | Raised exc

text \<open>
  The default gallery of \<^verbatim>\<open>create_default_gallery()\<close> (module
  \<^verbatim>\<open>autogenstudio.gallery.builder\<close>, not among the source files) is a parameter of the
  routes that use it: the dumped team components \<^verbatim>\<open>components.teams[i].model_dump()\<close>
  and the dump of the whole gallery.
\<close>

record gallery_config =
  components_teams :: "json list"
  model_dump :: json

section \<open>The database manager as the routes see it\<close>

text \<open>
  Every route receives \<^verbatim>\<open>db\<close> by dependency injection and calls its three methods.
  The routes are therefore modelled over any manager: a record of the three methods acting on
  a state \<open>'s\<close>. A method either raises (\<open>Inl\<close> of the exception) or returns a
  \<^verbatim>\<open>Response\<close>. \<open>get\<close> only reads. The keyword \<^verbatim>\<open>return_json\<close> chooses between
  model objects and their JSON dumps; rows have one representation here and the keyword is
  dropped.
\<close>

record 's db_manager =
  get :: "'s \<Rightarrow> model_class \<Rightarrow> filters \<Rightarrow> string option \<Rightarrow> exc + (row list option) response"
  upsert :: "'s \<Rightarrow> row \<Rightarrow> (exc + (row option) response) \<times> 's"
  delete :: "'s \<Rightarrow> model_class \<Rightarrow> filters \<Rightarrow> (exc + unit response) \<times> 's"

subsection \<open>Python helpers\<close>

text \<open>Truthiness of \<^verbatim>\<open>response.data\<close> when it is a list or \<^verbatim>\<open>None\<close>.\<close>

definition truthy :: "'a list option \<Rightarrow> bool" where
  "truthy d = (case d of None \<Rightarrow> False | Some xs \<Rightarrow> xs \<noteq> [])"

text \<open>
  \<^verbatim>\<open>len(response.data)\<close>. The source only evaluates it behind \<^verbatim>\<open>not response.data or\<close>,
  that is on a non-empty list; the value at \<open>None\<close> is never read.
\<close>

definition len :: "'a list option \<Rightarrow> nat" where
  "len d = (case d of None \<Rightarrow> 0 | Some xs \<Rightarrow> length xs)"

text \<open>A name between single quotes, as Python prints a type or an attribute.\<close>

definition quoted :: "string \<Rightarrow> string" where
  "quoted n = CHR 0x27 # n @ [CHR 0x27]"

text \<open>\<^verbatim>\<open>xs[0]\<close> on a list, and \<^verbatim>\<open>response.data[0]\<close> on a list or \<^verbatim>\<open>None\<close>.\<close>

definition index0 :: "'a list \<Rightarrow> exc + 'a" where
  "index0 xs = (case xs of [] \<Rightarrow> Inl (Exception ''list index out of range'') | x # _ \<Rightarrow> Inr x)"

definition subscript0 :: "'a list option \<Rightarrow> exc + 'a" where
  "subscript0 d =
     (case d of
        None \<Rightarrow> Inl (Exception (quoted ''NoneType'' @ '' object is not subscriptable''))
      | Some xs \<Rightarrow> index0 xs)"

text \<open>\<^verbatim>\<open>run.data.id\<close> on the model object an upsert returned, or on \<^verbatim>\<open>None\<close>.\<close>

definition attr_id :: "row option \<Rightarrow> exc + int option" where
  "attr_id d =
     (case d of
        None \<Rightarrow> Inl (Exception (quoted ''NoneType'' @ '' object has no attribute '' @ quoted ''id''))
      | Some r \<Rightarrow> Inr (row_id r))"

section \<open>Routes\<close>

text \<open>
  Each handler takes the manager \<open>db\<close>, its path, query and body parameters, the tenant and
  domain of the request context (\<open>tid\<close>, \<open>did\<close>; the source calls them \<^verbatim>\<open>tenant_id\<close> and
  \<^verbatim>\<open>domain_id\<close>, names the row record already uses for its columns, and likewise \<open>uid\<close>
  for \<^verbatim>\<open>user_id\<close>) and the state of the database, and returns its reply or its failure
  together with the new state.
\<close>

subsection \<open>\<^verbatim>\<open>routes/gallery.py\<close>\<close>

definition update_gallery_entry ::
  "'s db_manager \<Rightarrow> int \<Rightarrow> row \<Rightarrow> string \<Rightarrow> int \<Rightarrow> int \<Rightarrow> 's
     \<Rightarrow> (failure + (row option) response) \<times> 's" where
  "update_gallery_entry db gallery_id gallery_data uid tid did s =
     (case get db s Gallery
             [(''id'', IntV gallery_id), (''tenant_id'', IntV tid), (''domain_id'', IntV did)]
             None of
        Inl e \<Rightarrow> (Inl (Raised e), s)
      | Inr result \<Rightarrow>
          if \<not> status result \<or> \<not> truthy (data result)
          then (Inl (HTTPException 404 ''Gallery entry not found''), s)
          else
            (case subscript0 (data result) of
               Inl e \<Rightarrow> (Inl (Raised e), s)
             | Inr row0 \<Rightarrow>
                 if user_id row0 \<noteq> Some uid
                 then (Inl (HTTPException 403 ''Not authorized to update this gallery entry''), s)
                 else
                   (case upsert db s
                           (gallery_data\<lparr>row_id := Some gallery_id, user_id := Some uid,
                              tenant_id := Some tid, domain_id := Some did\<rparr>) of
                      (Inl e, s') \<Rightarrow> (Inl (Raised e), s')
                    | (Inr r, s') \<Rightarrow> (Inr r, s'))))"

definition create_gallery_entry ::
  "'s db_manager \<Rightarrow> row \<Rightarrow> int \<Rightarrow> int \<Rightarrow> 's \<Rightarrow> (failure + (row option) response) \<times> 's" where
  "create_gallery_entry db gallery_data tid did s =
     (case upsert db s (gallery_data\<lparr>tenant_id := Some tid, domain_id := Some did\<rparr>) of
        (Inl e, s') \<Rightarrow> (Inl (Raised e), s')
      | (Inr response, s') \<Rightarrow>
          if \<not> status response then (Inl (HTTPException 400 (message response)), s')
          else (Inr response, s'))"

text \<open>
  \<^verbatim>\<open>list_gallery_entries\<close> is one \<^verbatim>\<open>try\<close> block, modelled as a function of its own
  whose \<open>Inl\<close> is the exception raised inside it, and an \<^verbatim>\<open>except Exception\<close> clause
  that turns an instance of \<^verbatim>\<open>Exception\<close> into a \<^verbatim>\<open>Response\<close> and lets any other
  exception pass.
\<close>

definition list_gallery_entries_try ::
  "'s db_manager \<Rightarrow> gallery_config \<Rightarrow> string \<Rightarrow> int \<Rightarrow> int \<Rightarrow> 's
     \<Rightarrow> (exc + (row list option) response) \<times> 's" where
  "list_gallery_entries_try db create_default_gallery uid tid did s =
     (case get db s Gallery
             [(''user_id'', StrV uid), (''tenant_id'', IntV tid), (''domain_id'', IntV did)]
             None of
        Inl e \<Rightarrow> (Inl e, s)
      | Inr result \<Rightarrow>
          if \<not> truthy (data result) \<or> len (data result) = 0
          then
            (let default_gallery =
                   (new_row Gallery)\<lparr>user_id := Some uid,
                      config := Some (model_dump create_default_gallery),
                      tenant_id := Some tid, domain_id := Some did\<rparr>
             in case upsert db s default_gallery of
                  (Inl e, s') \<Rightarrow> (Inl e, s')
                | (Inr _, s') \<Rightarrow>
                    (case get db s' Gallery
                            [(''user_id'', StrV uid), (''tenant_id'', IntV tid),
                             (''domain_id'', IntV did)]
                            None of
                       Inl e \<Rightarrow> (Inl e, s')
                     | Inr result' \<Rightarrow> (Inr result', s')))
          else (Inr result, s))"

definition list_gallery_entries ::
  "'s db_manager \<Rightarrow> gallery_config \<Rightarrow> string \<Rightarrow> int \<Rightarrow> int \<Rightarrow> 's
     \<Rightarrow> (failure + (row list option) response) \<times> 's" where
  "list_gallery_entries db create_default_gallery uid tid did s =
     (case list_gallery_entries_try db create_default_gallery uid tid did s of
        (Inr result, s') \<Rightarrow> (Inr result, s')
      | (Inl (Exception e), s') \<Rightarrow>
          (Inr \<lparr>status = False, data = Some [],
                message = ''Error retrieving gallery entries: '' @ e\<rparr>, s')
      | (Inl (BaseException e), s') \<Rightarrow> (Inl (Raised (BaseException e)), s'))"

definition get_gallery_entry ::
  "'s db_manager \<Rightarrow> int \<Rightarrow> string \<Rightarrow> int \<Rightarrow> int \<Rightarrow> 's \<Rightarrow> (failure + row response) \<times> 's" where
  "get_gallery_entry db gallery_id uid tid did s =
     (case get db s Gallery
             [(''id'', IntV gallery_id), (''user_id'', StrV uid), (''tenant_id'', IntV tid),
              (''domain_id'', IntV did)]
             None of
        Inl e \<Rightarrow> (Inl (Raised e), s)
      | Inr result \<Rightarrow>
          if \<not> status result \<or> \<not> truthy (data result)
          then (Inl (HTTPException 404 ''Gallery entry not found''), s)
          else
            (case subscript0 (data result) of
               Inl e \<Rightarrow> (Inl (Raised e), s)
             | Inr row0 \<Rightarrow>
                 (Inr \<lparr>status = status result, data = row0, message = message result\<rparr>, s)))"

definition delete_gallery_entry ::
  "'s db_manager \<Rightarrow> int \<Rightarrow> string \<Rightarrow> int \<Rightarrow> int \<Rightarrow> 's \<Rightarrow> (failure + unit response) \<times> 's" where
  "delete_gallery_entry db gallery_id uid tid did s =
     (case get db s Gallery
             [(''id'', IntV gallery_id), (''user_id'', StrV uid), (''tenant_id'', IntV tid),
              (''domain_id'', IntV did)]
             None of
        Inl e \<Rightarrow> (Inl (Raised e), s)
      | Inr result \<Rightarrow>
          if \<not> status result \<or> \<not> truthy (data result)
          then (Inl (HTTPException 404 ''Gallery entry not found''), s)
          else
            (case delete db s Gallery
                    [(''id'', IntV gallery_id), (''tenant_id'', IntV tid),
                     (''domain_id'', IntV did)] of
               (Inl e, s') \<Rightarrow> (Inl (Raised e), s')
             | (Inr response, s') \<Rightarrow> (Inr response, s')))"

subsection \<open>\<^verbatim>\<open>routes/teams.py\<close>\<close>

definition list_teams ::
  "'s db_manager \<Rightarrow> gallery_config \<Rightarrow> string \<Rightarrow> int \<Rightarrow> int \<Rightarrow> 's
     \<Rightarrow> (failure + (row list option) status_data) \<times> 's" where
  "list_teams db create_default_gallery uid tid did s =
     (case get db s Team
             [(''user_id'', StrV uid), (''tenant_id'', IntV tid), (''domain_id'', IntV did)]
             None of
        Inl e \<Rightarrow> (Inl (Raised e), s)
      | Inr response \<Rightarrow>
          if \<not> truthy (data response) \<or> len (data response) = 0
          then
            (case index0 (components_teams create_default_gallery) of
               Inl e \<Rightarrow> (Inl (Raised e), s)
             | Inr team0 \<Rightarrow>
                 (let default_team =
                        (new_row Team)\<lparr>user_id := Some uid, component := Some team0,
                           tenant_id := Some tid, domain_id := Some did\<rparr>
                  in case upsert db s default_team of
                       (Inl e, s') \<Rightarrow> (Inl (Raised e), s')
                     | (Inr _, s') \<Rightarrow>
                         (case get db s' Team
                                 [(''user_id'', StrV uid), (''tenant_id'', IntV tid),
                                  (''domain_id'', IntV did)]
                                 None of
                            Inl e \<Rightarrow> (Inl (Raised e), s')
                          | Inr response' \<Rightarrow>
                              (Inr \<lparr>status = True, data = data response'\<rparr>, s'))))
          else (Inr \<lparr>status = True, data = data response\<rparr>, s))"

definition get_team ::
  "'s db_manager \<Rightarrow> int \<Rightarrow> string \<Rightarrow> int \<Rightarrow> int \<Rightarrow> 's \<Rightarrow> (failure + row status_data) \<times> 's" where
  "get_team db team_id' uid tid did s =
     (case get db s Team
             [(''id'', IntV team_id'), (''user_id'', StrV uid), (''tenant_id'', IntV tid),
              (''domain_id'', IntV did)]
             None of
        Inl e \<Rightarrow> (Inl (Raised e), s)
      | Inr response \<Rightarrow>
          if \<not> status response \<or> \<not> truthy (data response)
          then (Inl (HTTPException 404 ''Team not found''), s)
          else
            (case subscript0 (data response) of
               Inl e \<Rightarrow> (Inl (Raised e), s)
             | Inr row0 \<Rightarrow> (Inr \<lparr>status = True, data = row0\<rparr>, s)))"

definition create_team ::
  "'s db_manager \<Rightarrow> row \<Rightarrow> int \<Rightarrow> int \<Rightarrow> 's \<Rightarrow> (failure + (row option) status_data) \<times> 's" where
  "create_team db team tid did s =
     (case upsert db s (team\<lparr>tenant_id := Some tid, domain_id := Some did\<rparr>) of
        (Inl e, s') \<Rightarrow> (Inl (Raised e), s')
      | (Inr response, s') \<Rightarrow>
          if \<not> status response then (Inl (HTTPException 400 (message response)), s')
          else (Inr \<lparr>status = True, data = data response\<rparr>, s'))"

definition delete_team ::
  "'s db_manager \<Rightarrow> int \<Rightarrow> string \<Rightarrow> int \<Rightarrow> int \<Rightarrow> 's \<Rightarrow> (failure + status_message) \<times> 's" where
  "delete_team db team_id' uid tid did s =
     (case delete db s Team
             [(''id'', IntV team_id'), (''user_id'', StrV uid), (''tenant_id'', IntV tid),
              (''domain_id'', IntV did)] of
        (Inl e, s') \<Rightarrow> (Inl (Raised e), s')
      | (Inr _, s') \<Rightarrow> (Inr (StatusMessage True ''Team deleted successfully''), s'))"

subsection \<open>\<^verbatim>\<open>routes/runs.py\<close>\<close>

text \<open>
  The body \<^verbatim>\<open>CreateRunRequest\<close> has the two fields \<^verbatim>\<open>session_id\<close> and
  \<^verbatim>\<open>user_id\<close>, passed here as two arguments. The reply carries the dictionary
  \<^verbatim>\<open>{"run_id": run.data.id}\<close>, modelled by the id itself. The lookup of the session is
  outside the \<^verbatim>\<open>try\<close> block; the block is \<open>create_run_try\<close>.
\<close>

definition create_run_try ::
  "'s db_manager \<Rightarrow> int \<Rightarrow> string \<Rightarrow> int \<Rightarrow> int \<Rightarrow> 's
     \<Rightarrow> (exc + (int option) status_data) \<times> 's" where
  "create_run_try db request_session_id request_user_id tid did s =
     (case upsert db s
             ((new_row Run)\<lparr>session_id := Some request_session_id,
                run_status := Some CREATED, user_id := Some request_user_id,
                task := Some ''{}'', team_result := Some ''{}'',
                tenant_id := Some tid, domain_id := Some did\<rparr>) of
        (Inl e, s') \<Rightarrow> (Inl e, s')
      | (Inr run, s') \<Rightarrow>
          (case attr_id (data run) of
             Inl e \<Rightarrow> (Inl e, s')
           | Inr i \<Rightarrow> (Inr \<lparr>status = status run, data = i\<rparr>, s')))"

definition create_run ::
  "'s db_manager \<Rightarrow> int \<Rightarrow> string \<Rightarrow> int \<Rightarrow> int \<Rightarrow> 's
     \<Rightarrow> (failure + (int option) status_data) \<times> 's" where
  "create_run db request_session_id request_user_id tid did s =
     (case get db s Session
             [(''id'', IntV request_session_id), (''user_id'', StrV request_user_id),
              (''tenant_id'', IntV tid), (''domain_id'', IntV did)]
             None of
        Inl e \<Rightarrow> (Inl (Raised e), s)
      | Inr session_response \<Rightarrow>
          if \<not> status session_response \<or> \<not> truthy (data session_response)
          then (Inl (HTTPException 404 ''Session not found''), s)
          else
            (case create_run_try db request_session_id request_user_id tid did s of
               (Inr r, s') \<Rightarrow> (Inr r, s')
             | (Inl (Exception e), s') \<Rightarrow> (Inl (HTTPException 500 e), s')
             | (Inl (BaseException e), s') \<Rightarrow> (Inl (Raised (BaseException e)), s')))"

definition get_run ::
  "'s db_manager \<Rightarrow> int \<Rightarrow> int \<Rightarrow> int \<Rightarrow> 's \<Rightarrow> (failure + row status_data) \<times> 's" where
  "get_run db run_id' tid did s =
     (case get db s Run
             [(''id'', IntV run_id'), (''tenant_id'', IntV tid), (''domain_id'', IntV did)]
             None of
        Inl e \<Rightarrow> (Inl (Raised e), s)
      | Inr run \<Rightarrow>
          if \<not> status run \<or> \<not> truthy (data run)
          then (Inl (HTTPException 404 ''Run not found''), s)
          else
            (case subscript0 (data run) of
               Inl e \<Rightarrow> (Inl (Raised e), s)
             | Inr row0 \<Rightarrow> (Inr \<lparr>status = True, data = row0\<rparr>, s)))"

definition get_run_messages ::
  "'s db_manager \<Rightarrow> int \<Rightarrow> int \<Rightarrow> int \<Rightarrow> 's
     \<Rightarrow> (failure + (row list option) status_data) \<times> 's" where
  "get_run_messages db run_id' tid did s =
     (case get db s Message
             [(''run_id'', IntV run_id'), (''tenant_id'', IntV tid), (''domain_id'', IntV did)]
             (Some ''created_at asc'') of
        Inl e \<Rightarrow> (Inl (Raised e), s)
      | Inr messages \<Rightarrow> (Inr \<lparr>status = True, data = data messages\<rparr>, s))"

subsection \<open>\<^verbatim>\<open>routes/settingsroute.py\<close>\<close>

text \<open>
  \<open>settings_config\<close> is the dump of the default \<^verbatim>\<open>SettingsConfig()\<close>, a class of the
  data model that is not among the source files. All of \<^verbatim>\<open>get_settings\<close> is one
  \<^verbatim>\<open>try\<close> block, \<open>get_settings_try\<close>.
\<close>

definition get_settings_try ::
  "'s db_manager \<Rightarrow> json \<Rightarrow> string \<Rightarrow> int \<Rightarrow> int \<Rightarrow> 's \<Rightarrow> (exc + row status_data) \<times> 's" where
  "get_settings_try db settings_config uid tid did s =
     (case get db s Settings
             [(''user_id'', StrV uid), (''tenant_id'', IntV tid), (''domain_id'', IntV did)]
             None of
        Inl e \<Rightarrow> (Inl e, s)
      | Inr response \<Rightarrow>
          if \<not> status response \<or> \<not> truthy (data response)
          then
            (let default_settings =
                   (new_row Settings)\<lparr>user_id := Some uid, config := Some settings_config,
                      tenant_id := Some tid, domain_id := Some did\<rparr>
             in case upsert db s default_settings of
                  (Inl e, s') \<Rightarrow> (Inl e, s')
                | (Inr _, s') \<Rightarrow>
                    (case get db s' Settings
                            [(''user_id'', StrV uid), (''tenant_id'', IntV tid),
                             (''domain_id'', IntV did)]
                            None of
                       Inl e \<Rightarrow> (Inl e, s')
                     | Inr response' \<Rightarrow>
                         (case subscript0 (data response') of
                            Inl e \<Rightarrow> (Inl e, s')
                          | Inr row0 \<Rightarrow> (Inr \<lparr>status = True, data = row0\<rparr>, s'))))
          else
            (case subscript0 (data response) of
               Inl e \<Rightarrow> (Inl e, s)
             | Inr row0 \<Rightarrow> (Inr \<lparr>status = True, data = row0\<rparr>, s)))"

definition get_settings ::
  "'s db_manager \<Rightarrow> json \<Rightarrow> string \<Rightarrow> int \<Rightarrow> int \<Rightarrow> 's \<Rightarrow> (failure + row status_data) \<times> 's" where
  "get_settings db settings_config uid tid did s =
     (case get_settings_try db settings_config uid tid did s of
        (Inr r, s') \<Rightarrow> (Inr r, s')
      | (Inl (Exception e), s') \<Rightarrow> (Inl (HTTPException 500 e), s')
      | (Inl (BaseException e), s') \<Rightarrow> (Inl (Raised (BaseException e)), s'))"

definition update_settings ::
  "'s db_manager \<Rightarrow> row \<Rightarrow> int \<Rightarrow> int \<Rightarrow> 's \<Rightarrow> (failure + (row option) status_data) \<times> 's" where
  "update_settings db settings tid did s =
     (case upsert db s (settings\<lparr>tenant_id := Some tid, domain_id := Some did\<rparr>) of
        (Inl e, s') \<Rightarrow> (Inl (Raised e), s')
      | (Inr response, s') \<Rightarrow>
          if \<not> status response then (Inl (HTTPException 400 (message response)), s')
          else (Inr \<lparr>status = True, data = data response\<rparr>, s'))"

section \<open>The database manager of the specification\<close>

text \<open>
  Modelled from the spec: the class \<^verbatim>\<open>DatabaseManager\<close> (module
  \<^verbatim>\<open>autogenstudio.database\<close>) is not among the source files; only its callers, the
  routes, and its tests are. The state is one table, a list of rows in insertion order, per
  model class.
\<close>

type_synonym db_state = "model_class \<Rightarrow> row list"

text \<open>
  Modelled from the spec: the value of a row in the column a filter key names. The filters
  the routes and tests build name the columns listed here; another key, or a column that is
  NULL, equals no filter value.
\<close>

definition column :: "row \<Rightarrow> string \<Rightarrow> val option" where
  "column r k =
     (if k = ''id'' then map_option IntV (row_id r)
      else if k = ''user_id'' then map_option StrV (user_id r)
      else if k = ''tenant_id'' then map_option IntV (tenant_id r)
      else if k = ''domain_id'' then map_option IntV (domain_id r)
      else if k = ''team_id'' then map_option IntV (team_id r)
      else if k = ''session_id'' then map_option IntV (session_id r)
      else if k = ''run_id'' then map_option IntV (run_id r)
      else if k = ''name'' then map_option StrV (name r)
      else if k = ''slug'' then map_option StrV (slug r)
      else if k = ''version'' then map_option StrV (version r)
      else None)"

text \<open>
  Modelled from the spec: \<^verbatim>\<open>get\<close> "returns rows matching all filter key/value
  equalities".
\<close>

definition matches :: "filters \<Rightarrow> row \<Rightarrow> bool" where
  "matches flt r = list_all (\<lambda>(k, v). column r k = Some v) flt"

text \<open>
  Modelled from the spec: the optional \<^verbatim>\<open>order\<close> argument. The one order the routes ask
  for is \<^verbatim>\<open>"created_at asc"\<close>, ascending by \<open>created_at\<close> (rows with equal time stay in
  insertion order); without it the rows come in insertion order.
\<close>

definition apply_order :: "string option \<Rightarrow> row list \<Rightarrow> row list" where
  "apply_order ord rs =
     (if ord = Some ''created_at asc'' then sort_key created_at rs
      else if ord = Some ''created_at desc'' then rev (sort_key created_at rs)
      else rs)"

text \<open>
  Modelled from the spec: \<^verbatim>\<open>get(entity_type, filters, order?)\<close>; "empty match is not an
  error" and is represented by the empty list. The spec fixes no message text for a read.
\<close>

definition db_get ::
  "db_state \<Rightarrow> model_class \<Rightarrow> filters \<Rightarrow> string option \<Rightarrow> exc + (row list option) response" where
  "db_get s c flt ord =
     Inr \<lparr>status = True, data = Some (apply_order ord (filter (matches flt) (s c))),
          message = []\<rparr>"

text \<open>
  Modelled from the spec: the server-assigned id of an inserted row, one more than the
  largest id in its table.
\<close>

definition fresh_id :: "row list \<Rightarrow> int" where
  "fresh_id rs = 1 + fold max (map (\<lambda>r. case row_id r of None \<Rightarrow> 0 | Some i \<Rightarrow> i) rs) 0"

text \<open>
  Modelled from the spec: \<^verbatim>\<open>upsert(entity)\<close> "inserts if no identifying primary key
  present, else updates by primary key; returns the persisted entity including any
  server-assigned id". An entity that brings an id no stored row has is inserted under that
  id, as \<^verbatim>\<open>test_cascade_delete\<close> does with its runs. The message of an insertion is the
  one \<^verbatim>\<open>test_upsert_operations\<close> looks for.
\<close>

definition db_upsert :: "db_state \<Rightarrow> row \<Rightarrow> (exc + (row option) response) \<times> db_state" where
  "db_upsert s e =
     (case row_id e of
        None \<Rightarrow>
          (let e' = e\<lparr>row_id := Some (fresh_id (s (cls e)))\<rparr>
           in (Inr \<lparr>status = True, data = Some e', message = ''Created Successfully''\<rparr>,
               s(cls e := s (cls e) @ [e'])))
      | Some i \<Rightarrow>
          if list_ex (\<lambda>r. row_id r = Some i) (s (cls e))
          then (Inr \<lparr>status = True, data = Some e, message = ''Updated Successfully''\<rparr>,
                s(cls e := map (\<lambda>r. if row_id r = Some i then e else r) (s (cls e))))
          else (Inr \<lparr>status = True, data = Some e, message = ''Created Successfully''\<rparr>,
                s(cls e := s (cls e) @ [e])))"

text \<open>
  Modelled from the spec: the declared cascade rules. "Deleting a Run deletes its Messages":
  \<open>purge_messages ids\<close> removes the messages of the runs with these ids. "Deleting a Session
  deletes its Runs and their Messages transitively": \<open>purge_runs ids\<close> removes the runs of
  the sessions with these ids, and the messages of those runs.
\<close>

definition ids_of :: "row list \<Rightarrow> int list" where
  "ids_of rs = concat (map (\<lambda>r. case row_id r of None \<Rightarrow> [] | Some i \<Rightarrow> [i]) rs)"

definition refers :: "(row \<Rightarrow> int option) \<Rightarrow> int list \<Rightarrow> row \<Rightarrow> bool" where
  "refers fk ids r = (case fk r of None \<Rightarrow> False | Some i \<Rightarrow> i \<in> set ids)"

definition purge_messages :: "int list \<Rightarrow> db_state \<Rightarrow> db_state" where
  "purge_messages ids s = s(Message := filter (\<lambda>m. \<not> refers run_id ids m) (s Message))"

definition purge_runs :: "int list \<Rightarrow> db_state \<Rightarrow> db_state" where
  "purge_runs ids s =
     (let doomed = filter (refers session_id ids) (s Run)
      in purge_messages (ids_of doomed)
           (s(Run := filter (\<lambda>r. \<not> refers session_id ids r) (s Run))))"

definition cascade :: "model_class \<Rightarrow> int list \<Rightarrow> db_state \<Rightarrow> db_state" where
  "cascade c ids s =
     (if c = Session then purge_runs ids s
      else if c = Run then purge_messages ids s
      else s)"

text \<open>
  Modelled from the spec: \<^verbatim>\<open>delete(entity_type, filters)\<close> "deletes rows matching
  filters; relies on declared cascade rules for dependent entities; returns success even if
  zero rows matched". The message is the one \<^verbatim>\<open>test_delete_operations\<close> looks for; the
  spec fixes none for the case of no matching row.
\<close>

definition db_delete ::
  "db_state \<Rightarrow> model_class \<Rightarrow> filters \<Rightarrow> (exc + unit response) \<times> db_state" where
  "db_delete s c flt =
     (let doomed = filter (matches flt) (s c)
      in (Inr \<lparr>status = True, data = (),
               message = (if doomed = [] then [] else ''Deleted Successfully'')\<rparr>,
          cascade c (ids_of doomed) (s(c := filter (\<lambda>r. \<not> matches flt r) (s c)))))"

text \<open>
  Modelled from the spec: the manager the routes are given, made of the three operations
  above. None of them raises.
\<close>

definition DatabaseManager :: "db_state db_manager" where
  "DatabaseManager = \<lparr>get = db_get, upsert = db_upsert, delete = db_delete\<rparr>"

section \<open>Example databases\<close>

text \<open>Two teams of the same user under two tenants, as in \<^verbatim>\<open>test_multi_tenant_filtering\<close>.\<close>

definition team_a :: row where
  "team_a = (new_row Team)\<lparr>row_id := Some 1, user_id := Some ''u1'', tenant_id := Some 1,
     domain_id := Some 1\<rparr>"

definition team_b :: row where
  "team_b = (new_row Team)\<lparr>row_id := Some 2, user_id := Some ''u1'', tenant_id := Some 2,
     domain_id := Some 2\<rparr>"

definition empty_db :: db_state where
  "empty_db = (\<lambda>_. [])"

definition two_tenants :: db_state where
  "two_tenants = empty_db(Team := [team_a, team_b])"

text \<open>
  One session with a run and a message, and a second session with a run and a message of its
  own, as in \<^verbatim>\<open>test_cascade_delete\<close>.
\<close>

definition session1 :: row where
  "session1 = (new_row Session)\<lparr>row_id := Some 1, user_id := Some ''u1'', name := Some ''S1''\<rparr>"

definition session2 :: row where
  "session2 = (new_row Session)\<lparr>row_id := Some 2, user_id := Some ''u1'', name := Some ''S2''\<rparr>"

definition run1 :: row where
  "run1 = (new_row Run)\<lparr>row_id := Some 1, user_id := Some ''u1'', session_id := Some 1,
     run_status := Some COMPLETE\<rparr>"

definition run2 :: row where
  "run2 = (new_row Run)\<lparr>row_id := Some 2, user_id := Some ''u1'', session_id := Some 2,
     run_status := Some COMPLETE\<rparr>"

definition message1 :: row where
  "message1 = (new_row Message)\<lparr>row_id := Some 1, user_id := Some ''u1'', session_id := Some 1,
     run_id := Some 1, tenant_id := Some 1, domain_id := Some 1, created_at := 20\<rparr>"

definition message2 :: row where
  "message2 = (new_row Message)\<lparr>row_id := Some 2, user_id := Some ''u1'', session_id := Some 2,
     run_id := Some 2, tenant_id := Some 1, domain_id := Some 1, created_at := 30\<rparr>"

definition message3 :: row where
  "message3 = (new_row Message)\<lparr>row_id := Some 3, user_id := Some ''u1'', session_id := Some 1,
     run_id := Some 1, tenant_id := Some 1, domain_id := Some 1, created_at := 10\<rparr>"

definition sessions_db :: db_state where
  "sessions_db = empty_db(Session := [session1, session2], Run := [run1, run2],
     Message := [message1, message2, message3])"

text \<open>A gallery entry of the user alice under tenant 1 and domain 1.\<close>

definition gallery1 :: row where
  "gallery1 = (new_row Gallery)\<lparr>row_id := Some 1, user_id := Some ''alice'',
     tenant_id := Some 1, domain_id := Some 1, config := Some ''{}''\<rparr>"

definition gallery_db :: db_state where
  "gallery_db = empty_db(Gallery := [gallery1])"

text \<open>A default gallery with one team component.\<close>

definition default_gallery0 :: gallery_config where
  "default_gallery0 = \<lparr>components_teams = [''{team}''], model_dump = ''{gallery}''\<rparr>"

text \<open>
  A manager that answers every call with a fixed outcome, for the branches of the routes that
  the manager of the specification never reaches. Its state counts the writes it received.
\<close>

definition fixed_manager ::
  "(exc + (row list option) response) \<Rightarrow> (exc + (row option) response)
     \<Rightarrow> (exc + unit response) \<Rightarrow> nat db_manager" where
  "fixed_manager g u d =
     \<lparr>get = (\<lambda>s c flt ord. g), upsert = (\<lambda>s e. (u, Suc s)), delete = (\<lambda>s c flt. (d, Suc s))\<rparr>"

text \<open>
  The team \<^verbatim>\<open>list_teams\<close> builds for a user without teams, as it is stored: with the id
  the database assigned.
\<close>

definition default_team :: "json \<Rightarrow> string \<Rightarrow> int \<Rightarrow> int \<Rightarrow> int \<Rightarrow> row" where
  "default_team c u t d i = (new_row Team)\<lparr>user_id := Some u, component := Some c,
      tenant_id := Some t, domain_id := Some d, row_id := Some i\<rparr>"

text \<open>Two results an upsert may return: a refusal and an acceptance.\<close>

definition refused :: "(row option) response" where
  "refused = \<lparr>status = False, data = None, message = ''UNIQUE constraint failed''\<rparr>"

definition accepted :: "row \<Rightarrow> (row option) response" where
  "accepted e = \<lparr>status = True, data = Some e, message = ''Created Successfully''\<rparr>"

text \<open>The body of an update request for a gallery entry, naming a tenant of its own.\<close>

definition gallery_update :: row where
  "gallery_update = (new_row Gallery)\<lparr>config := Some ''{x}'', tenant_id := Some 9\<rparr>"



text \<open>
  A manager whose reads answer one way before the first write and another way after it; its
  state counts the writes it received.
\<close>

definition staged_manager ::
  "(exc + (row list option) response) \<Rightarrow> (exc + (row list option) response)
     \<Rightarrow> (exc + (row option) response) \<Rightarrow> (exc + unit response) \<Rightarrow> nat db_manager" where
  "staged_manager g0 g1 u d =
     \<lparr>get = (\<lambda>s c flt ord. if s = 0 then g0 else g1), upsert = (\<lambda>s e. (u, Suc s)),
      delete = (\<lambda>s c flt. (d, Suc s))\<rparr>"




section \<open>Filters\<close>

lemma matches_Nil: "matches [] r"
  by (simp add: matches_def)

lemma matches_Cons: "matches ((k, v) # flt) r \<longleftrightarrow> column r k = Some v \<and> matches flt r"
  by (simp add: matches_def)

lemma matches_mem: "matches flt r \<Longrightarrow> (k, v) \<in> set flt \<Longrightarrow> column r k = Some v"
  by (auto simp: matches_def list_all_iff)

lemma column_id: "column r ''id'' = Some (IntV i) \<longleftrightarrow> row_id r = Some i"
  by (auto simp: column_def)

lemma column_user_id: "column r ''user_id'' = Some (StrV u) \<longleftrightarrow> user_id r = Some u"
  by (auto simp: column_def)

lemma column_tenant_id: "column r ''tenant_id'' = Some (IntV i) \<longleftrightarrow> tenant_id r = Some i"
  by (auto simp: column_def)

lemma column_domain_id: "column r ''domain_id'' = Some (IntV i) \<longleftrightarrow> domain_id r = Some i"
  by (auto simp: column_def)

lemma column_run_id: "column r ''run_id'' = Some (IntV i) \<longleftrightarrow> run_id r = Some i"
  by (auto simp: column_def)

lemmas scope_simps = matches_Nil matches_Cons column_id column_user_id column_tenant_id
  column_domain_id column_run_id

lemma set_apply_order: "set (apply_order ord rs) = set rs"
  by (simp add: apply_order_def)

section \<open>Tenant isolation\<close>

text \<open>
  Claim C1. A \<^verbatim>\<open>get\<close> of the manager whose filters contain \<^verbatim>\<open>tenant_id\<close> = B returns
  only stored rows that carry exactly the tenant B; a stored row of another tenant A is never
  among them. The statement holds in every state of the database, so in particular after
  any row of tenant A has been created.
\<close>

theorem tenant_isolation:
  assumes "get DatabaseManager s c flt ord = Inr resp"
    and "(''tenant_id'', IntV B) \<in> set flt"
  shows "\<exists>rs. data resp = Some rs \<and> (\<forall>r \<in> set rs. r \<in> set (s c) \<and> tenant_id r = Some B) \<and>
           (\<forall>r \<in> set (s c). \<forall>A. tenant_id r = Some A \<and> A \<noteq> B \<longrightarrow> r \<notin> set rs)"
proof -
  let ?rs = "apply_order ord (filter (matches flt) (s c))"
  from assms(1) have d: "data resp = Some ?rs"
    by (auto simp: DatabaseManager_def db_get_def)
  have t: "tenant_id r = Some B" if "r \<in> set ?rs" for r
  proof -
    from that have "matches flt r" by (simp add: set_apply_order)
    from matches_mem [OF this assms(2)] show ?thesis by (simp add: column_tenant_id)
  qed
  have "\<forall>r \<in> set ?rs. r \<in> set (s c) \<and> tenant_id r = Some B"
    using t by (simp add: set_apply_order)
  moreover have "\<forall>r \<in> set (s c). \<forall>A. tenant_id r = Some A \<and> A \<noteq> B \<longrightarrow> r \<notin> set ?rs"
    using t by fastforce
  ultimately show ?thesis using d by blast
qed

theorem tenant_isolation_witness:
  "get DatabaseManager two_tenants Team [(''tenant_id'', IntV 2)] None
     = Inr \<lparr>status = True, data = Some [team_b], message = []\<rparr> \<and>
   (''tenant_id'', IntV 2) \<in> set [(''tenant_id'', IntV 2)] \<and>
   (\<exists>rs. Some [team_b] = Some rs \<and>
      (\<forall>r \<in> set rs. r \<in> set (two_tenants Team) \<and> tenant_id r = Some 2) \<and>
      (\<forall>r \<in> set (two_tenants Team). \<forall>A. tenant_id r = Some A \<and> A \<noteq> 2 \<longrightarrow> r \<notin> set rs))"
proof -
  have g: "get DatabaseManager two_tenants Team [(''tenant_id'', IntV 2)] None
     = Inr \<lparr>status = True, data = Some [team_b], message = []\<rparr>"
    by (simp add: DatabaseManager_def db_get_def two_tenants_def empty_db_def apply_order_def
        scope_simps team_a_def team_b_def new_row_def)
  have m: "(''tenant_id'', IntV 2) \<in> set [(''tenant_id'', IntV 2)]" by simp
  from tenant_isolation [OF g m] g m show ?thesis by simp
qed

section \<open>Cascade delete\<close>

lemmas row_defs = new_row_def team_a_def team_b_def session1_def session2_def run1_def run2_def
  message1_def message2_def message3_def gallery1_def

lemmas db_defs = empty_db_def two_tenants_def sessions_db_def gallery_db_def

lemma refers_iff: "refers fk ids r \<longleftrightarrow> (\<exists>i. fk r = Some i \<and> i \<in> set ids)"
  by (auto simp: refers_def split: option.splits)

lemma ids_of_iff: "i \<in> set (ids_of rs) \<longleftrightarrow> (\<exists>r \<in> set rs. row_id r = Some i)"
  by (induction rs) (auto simp: ids_of_def split: option.splits)

lemma purge_messages_Message:
  "purge_messages ids s Message = filter (\<lambda>m. \<not> refers run_id ids m) (s Message)"
  by (simp add: purge_messages_def)

lemma purge_messages_other: "c \<noteq> Message \<Longrightarrow> purge_messages ids s c = s c"
  by (simp add: purge_messages_def)

lemma purge_runs_Run:
  "purge_runs ids s Run = filter (\<lambda>r. \<not> refers session_id ids r) (s Run)"
  by (simp add: purge_runs_def Let_def purge_messages_other)

lemma purge_runs_Message:
  "purge_runs ids s Message =
     filter (\<lambda>m. \<not> refers run_id (ids_of (filter (refers session_id ids) (s Run))) m) (s Message)"
  by (simp add: purge_runs_def Let_def purge_messages_Message)

lemma db_delete_status: "\<exists>m. fst (db_delete s c flt) = Inr \<lparr>status = True, data = (), message = m\<rparr>"
  by (simp add: db_delete_def Let_def)

lemma db_delete_Session_Run:
  "snd (db_delete s Session flt) Run =
     filter (\<lambda>r. \<not> refers session_id (ids_of (filter (matches flt) (s Session))) r) (s Run)"
  by (simp add: db_delete_def Let_def cascade_def purge_runs_Run)

lemma db_delete_Session_Message:
  "snd (db_delete s Session flt) Message =
     filter (\<lambda>m. \<not> refers run_id
        (ids_of (filter (refers session_id (ids_of (filter (matches flt) (s Session)))) (s Run))) m)
       (s Message)"
  by (simp add: db_delete_def Let_def cascade_def purge_runs_Message)

lemma db_delete_Run_Message:
  "snd (db_delete s Run flt) Message =
     filter (\<lambda>m. \<not> refers run_id (ids_of (filter (matches flt) (s Run))) m) (s Message)"
  by (simp add: db_delete_def Let_def cascade_def purge_messages_Message)

lemma db_delete_table:
  "snd (db_delete s c flt) c = filter (\<lambda>r. \<not> matches flt r) (s c)"
  by (cases c) (simp_all add: db_delete_def Let_def cascade_def purge_runs_def purge_messages_def)

text \<open>
  Claim C2. Deleting the sessions that match a filter removes each such session, every run
  whose \<open>session_id\<close> is the id of such a session, and every message whose \<open>run_id\<close> is the
  id of one of those runs. Deleting the runs that match a filter removes each such run and
  every message whose \<open>run_id\<close> is its id.
\<close>

theorem cascade_delete:
  "(\<forall>x \<in> set (s Session). \<forall>i. matches flt x \<and> row_id x = Some i \<longrightarrow>
      x \<notin> set (snd (delete DatabaseManager s Session flt) Session) \<and>
      (\<forall>r \<in> set (snd (delete DatabaseManager s Session flt) Run). session_id r \<noteq> Some i) \<and>
      (\<forall>r \<in> set (s Run). \<forall>j. session_id r = Some i \<and> row_id r = Some j \<longrightarrow>
         (\<forall>m \<in> set (snd (delete DatabaseManager s Session flt) Message). run_id m \<noteq> Some j))) \<and>
   (\<forall>y \<in> set (s Run). \<forall>j. matches flt' y \<and> row_id y = Some j \<longrightarrow>
      y \<notin> set (snd (delete DatabaseManager s Run flt') Run) \<and>
      (\<forall>m \<in> set (snd (delete DatabaseManager s Run flt') Message). run_id m \<noteq> Some j))"
proof -
  have d: "delete DatabaseManager = db_delete" by (simp add: DatabaseManager_def)
  have sess: "x \<notin> set (snd (db_delete s Session flt) Session) \<and>
      (\<forall>r \<in> set (snd (db_delete s Session flt) Run). session_id r \<noteq> Some i) \<and>
      (\<forall>r \<in> set (s Run). \<forall>j. session_id r = Some i \<and> row_id r = Some j \<longrightarrow>
         (\<forall>m \<in> set (snd (db_delete s Session flt) Message). run_id m \<noteq> Some j))"
    if x: "x \<in> set (s Session)" "matches flt x" "row_id x = Some i" for x i
  proof -
    from x have i: "i \<in> set (ids_of (filter (matches flt) (s Session)))"
      by (auto simp: ids_of_iff)
    have 1: "x \<notin> set (snd (db_delete s Session flt) Session)"
      using x by (simp add: db_delete_table)
    have 2: "\<forall>r \<in> set (snd (db_delete s Session flt) Run). session_id r \<noteq> Some i"
      using i by (auto simp: db_delete_Session_Run refers_iff)
    have 3: "\<forall>m \<in> set (snd (db_delete s Session flt) Message). run_id m \<noteq> Some j"
      if r: "r \<in> set (s Run)" "session_id r = Some i" "row_id r = Some j" for r j
    proof -
      from r i have "refers session_id (ids_of (filter (matches flt) (s Session))) r"
        by (auto simp: refers_iff)
      with r have "j \<in> set (ids_of (filter (refers session_id
          (ids_of (filter (matches flt) (s Session)))) (s Run)))"
        by (auto simp: ids_of_iff)
      then show ?thesis
        by (auto simp: db_delete_Session_Message refers_iff)
    qed
    from 1 2 3 show ?thesis by blast
  qed
  have run: "y \<notin> set (snd (db_delete s Run flt') Run) \<and>
      (\<forall>m \<in> set (snd (db_delete s Run flt') Message). run_id m \<noteq> Some j)"
    if y: "y \<in> set (s Run)" "matches flt' y" "row_id y = Some j" for y j
  proof -
    from y have j: "j \<in> set (ids_of (filter (matches flt') (s Run)))"
      by (auto simp: ids_of_iff)
    have 1: "y \<notin> set (snd (db_delete s Run flt') Run)"
      using y by (simp add: db_delete_table)
    have 2: "\<forall>m \<in> set (snd (db_delete s Run flt') Message). run_id m \<noteq> Some j"
      using j by (auto simp: db_delete_Run_Message refers_iff)
    from 1 2 show ?thesis by blast
  qed
  show ?thesis unfolding d using sess run by blast
qed


theorem cascade_delete_witness:
  "session1 \<in> set (sessions_db Session) \<and> matches [(''id'', IntV 1)] session1 \<and>
   row_id session1 = Some 1 \<and> run1 \<in> set (sessions_db Run) \<and> session_id run1 = Some 1 \<and>
   row_id run1 = Some 1 \<and> run_id message1 = Some 1 \<and>
   session1 \<notin> set (snd (delete DatabaseManager sessions_db Session [(''id'', IntV 1)]) Session) \<and>
   run1 \<notin> set (snd (delete DatabaseManager sessions_db Session [(''id'', IntV 1)]) Run) \<and>
   message1 \<notin> set (snd (delete DatabaseManager sessions_db Session [(''id'', IntV 1)]) Message) \<and>
   run2 \<in> set (sessions_db Run) \<and> matches [(''id'', IntV 2)] run2 \<and> row_id run2 = Some 2 \<and>
   run_id message2 = Some 2 \<and>
   run2 \<notin> set (snd (delete DatabaseManager sessions_db Run [(''id'', IntV 2)]) Run) \<and>
   message2 \<notin> set (snd (delete DatabaseManager sessions_db Run [(''id'', IntV 2)]) Message)"
proof -
  have a: "session1 \<in> set (sessions_db Session)" "run1 \<in> set (sessions_db Run)"
    "run2 \<in> set (sessions_db Run)"
    by (simp_all add: db_defs)
  have b: "matches [(''id'', IntV 1)] session1" "row_id session1 = Some 1"
    "session_id run1 = Some 1" "row_id run1 = Some 1"
    "matches [(''id'', IntV 2)] run2" "row_id run2 = Some 2"
    by (simp_all add: scope_simps row_defs)
  have k: "run_id message1 = Some 1" "run_id message2 = Some 2"
    by (simp_all add: row_defs)
  note c = cascade_delete [of sessions_db "[(''id'', IntV 1)]" "[(''id'', IntV 2)]"]
  from c a(1) b(1,2) have s: "session1 \<notin> set (snd (delete DatabaseManager sessions_db Session
        [(''id'', IntV 1)]) Session) \<and>
      (\<forall>r \<in> set (snd (delete DatabaseManager sessions_db Session [(''id'', IntV 1)]) Run).
        session_id r \<noteq> Some 1) \<and>
      (\<forall>r \<in> set (sessions_db Run). \<forall>j. session_id r = Some 1 \<and> row_id r = Some j \<longrightarrow>
         (\<forall>m \<in> set (snd (delete DatabaseManager sessions_db Session [(''id'', IntV 1)]) Message).
            run_id m \<noteq> Some j))"
    by blast
  from s b(3) have r1: "run1 \<notin> set (snd (delete DatabaseManager sessions_db Session
        [(''id'', IntV 1)]) Run)"
    by blast
  from s a(2) b(3,4) have "\<forall>m \<in> set (snd (delete DatabaseManager sessions_db Session
        [(''id'', IntV 1)]) Message). run_id m \<noteq> Some 1"
    by blast
  with k(1) have m1: "message1 \<notin> set (snd (delete DatabaseManager sessions_db Session
        [(''id'', IntV 1)]) Message)"
    by blast
  from c a(3) b(5,6) have r: "run2 \<notin> set (snd (delete DatabaseManager sessions_db Run
        [(''id'', IntV 2)]) Run) \<and>
      (\<forall>m \<in> set (snd (delete DatabaseManager sessions_db Run [(''id'', IntV 2)]) Message).
        run_id m \<noteq> Some 2)"
    by blast
  with k(2) have m2: "message2 \<notin> set (snd (delete DatabaseManager sessions_db Run
        [(''id'', IntV 2)]) Message)"
    by blast
  from a b k s r1 m1 r m2 show ?thesis by blast
qed

section \<open>Deleting\<close>

lemma team_scope:
  "matches [(''id'', IntV i), (''user_id'', StrV u), (''tenant_id'', IntV t), (''domain_id'', IntV d)]
     = (\<lambda>r. row_id r = Some i \<and> user_id r = Some u \<and> tenant_id r = Some t \<and> domain_id r = Some d)"
  by (simp add: fun_eq_iff scope_simps)

lemma delete_team_DatabaseManager:
  "delete_team DatabaseManager i u t d s =
     (Inr (StatusMessage True ''Team deleted successfully''),
      s(Team := filter (\<lambda>r. \<not> (row_id r = Some i \<and> user_id r = Some u \<and> tenant_id r = Some t \<and>
                               domain_id r = Some d)) (s Team)))"
  by (simp add: delete_team_def DatabaseManager_def db_delete_def Let_def cascade_def team_scope)

text \<open>
  Claim C9. \<^verbatim>\<open>delete(entity_type, filters)\<close> reports success whether or not a row
  matched, and leaves in the table exactly the rows that do not match all the filter
  equalities. \<^verbatim>\<open>DELETE /teams/{team_id}\<close> reports success for every team id; it removes
  the teams with that id, user, tenant and domain and nothing else, so a team of another
  user stays in the table.
\<close>

theorem delete_reports_success:
  "(\<exists>m. fst (delete DatabaseManager s c flt) = Inr \<lparr>status = True, data = (), message = m\<rparr>) \<and>
   snd (delete DatabaseManager s c flt) c = filter (\<lambda>r. \<not> matches flt r) (s c) \<and>
   fst (delete_team DatabaseManager i u t d s) = Inr (StatusMessage True ''Team deleted successfully'') \<and>
   snd (delete_team DatabaseManager i u t d s) =
     s(Team := filter (\<lambda>r. \<not> (row_id r = Some i \<and> user_id r = Some u \<and> tenant_id r = Some t \<and>
                              domain_id r = Some d)) (s Team)) \<and>
   (\<forall>r \<in> set (s Team). user_id r \<noteq> Some u \<longrightarrow> r \<in> set (snd (delete_team DatabaseManager i u t d s) Team))"
proof -
  have d: "delete DatabaseManager = db_delete" by (simp add: DatabaseManager_def)
  have 1: "\<exists>m. fst (delete DatabaseManager s c flt) = Inr \<lparr>status = True, data = (), message = m\<rparr>"
    unfolding d by (rule db_delete_status)
  have 2: "snd (delete DatabaseManager s c flt) c = filter (\<lambda>r. \<not> matches flt r) (s c)"
    unfolding d by (rule db_delete_table)
  have 3: "\<forall>r \<in> set (s Team). user_id r \<noteq> Some u \<longrightarrow>
      r \<in> set (snd (delete_team DatabaseManager i u t d s) Team)"
    by (simp add: delete_team_DatabaseManager)
  from 1 2 3 show ?thesis by (simp add: delete_team_DatabaseManager)
qed

theorem delete_reports_success_witness:
  "fst (delete DatabaseManager two_tenants Team [(''id'', IntV 99)])
     = Inr \<lparr>status = True, data = (), message = []\<rparr> \<and>
   snd (delete DatabaseManager two_tenants Team [(''id'', IntV 99)]) Team = [team_a, team_b] \<and>
   fst (delete_team DatabaseManager 99 ''u1'' 1 1 two_tenants)
     = Inr (StatusMessage True ''Team deleted successfully'') \<and>
   team_a \<in> set (two_tenants Team) \<and> user_id team_a \<noteq> Some ''mallory'' \<and>
   fst (delete_team DatabaseManager 1 ''mallory'' 1 1 two_tenants)
     = Inr (StatusMessage True ''Team deleted successfully'') \<and>
   team_a \<in> set (snd (delete_team DatabaseManager 1 ''mallory'' 1 1 two_tenants) Team) \<and>
   snd (delete_team DatabaseManager 1 ''u1'' 1 1 two_tenants) Team = [team_b]"
proof -
  have a: "team_a \<in> set (two_tenants Team)" "user_id team_a \<noteq> Some ''mallory''"
    by (simp_all add: db_defs row_defs)
  have e: "fst (delete DatabaseManager two_tenants Team [(''id'', IntV 99)])
     = Inr \<lparr>status = True, data = (), message = []\<rparr>"
    by (simp add: DatabaseManager_def db_delete_def db_defs row_defs scope_simps)
  have m: "\<not> matches [(''id'', IntV 99)] team_a" "\<not> matches [(''id'', IntV 99)] team_b"
    by (simp_all add: row_defs scope_simps)
  have t: "two_tenants Team = [team_a, team_b]" by (simp add: db_defs)
  have f: "row_id team_a = Some 1 \<and> user_id team_a = Some ''u1'' \<and> tenant_id team_a = Some 1 \<and>
      domain_id team_a = Some 1" "row_id team_b \<noteq> Some 1"
    by (simp_all add: row_defs)
  note w1 = delete_reports_success [of two_tenants Team "[(''id'', IntV 99)]" 99 "''u1''" 1 1]
  note w2 = delete_reports_success [of two_tenants Team "[(''id'', IntV 99)]" 1 "''mallory''" 1 1]
  note w3 = delete_reports_success [of two_tenants Team "[(''id'', IntV 99)]" 1 "''u1''" 1 1]
  have 1: "snd (delete DatabaseManager two_tenants Team [(''id'', IntV 99)]) Team = [team_a, team_b]"
    using w1 m t by simp
  have 3: "team_a \<in> set (snd (delete_team DatabaseManager 1 ''mallory'' 1 1 two_tenants) Team)"
    using w2 a by blast
  have 4: "snd (delete_team DatabaseManager 1 ''u1'' 1 1 two_tenants) Team = [team_b]"
    using w3 t f by simp
  from w1 w2 a e 1 3 4 show ?thesis by simp
qed

section \<open>Messages of a run\<close>

lemma message_scope:
  "matches [(''run_id'', IntV i), (''tenant_id'', IntV t), (''domain_id'', IntV d)]
     = (\<lambda>r. run_id r = Some i \<and> tenant_id r = Some t \<and> domain_id r = Some d)"
  by (simp add: fun_eq_iff scope_simps)

lemma get_run_messages_DatabaseManager:
  "get_run_messages DatabaseManager i t d s =
     (Inr \<lparr>status = True,
           data = Some (sort_key created_at
             (filter (\<lambda>m. run_id m = Some i \<and> tenant_id m = Some t \<and> domain_id m = Some d)
                (s Message)))\<rparr>, s)"
  by (simp add: get_run_messages_def DatabaseManager_def db_get_def apply_order_def message_scope)

lemma get_run_messages_not_404:
  "fst (get_run_messages db i t d s) \<noteq> Inl (HTTPException 404 msg)"
  by (simp add: get_run_messages_def split: sum.splits)

text \<open>
  Claim C10. \<^verbatim>\<open>GET /runs/{run_id}/messages\<close> never looks at the runs: in every state it
  answers with status true and the messages that carry the run id, the tenant and the domain,
  in ascending order of \<open>created_at\<close>; the list is empty when no message carries the run id.
  Whatever the manager answers, the route never raises a 404.
\<close>

theorem run_messages_without_run_check:
  "get_run_messages DatabaseManager i t d s =
     (Inr \<lparr>status = True,
           data = Some (sort_key created_at
             (filter (\<lambda>m. run_id m = Some i \<and> tenant_id m = Some t \<and> domain_id m = Some d)
                (s Message)))\<rparr>, s) \<and>
   sorted (map created_at (sort_key created_at
             (filter (\<lambda>m. run_id m = Some i \<and> tenant_id m = Some t \<and> domain_id m = Some d)
                (s Message)))) \<and>
   ((\<forall>m \<in> set (s Message). run_id m \<noteq> Some i) \<longrightarrow>
      get_run_messages DatabaseManager i t d s = (Inr \<lparr>status = True, data = Some []\<rparr>, s)) \<and>
   fst (get_run_messages db i' t' d' s') \<noteq> Inl (HTTPException 404 msg)"
proof (intro conjI impI)
  show "get_run_messages DatabaseManager i t d s =
     (Inr \<lparr>status = True,
           data = Some (sort_key created_at
             (filter (\<lambda>m. run_id m = Some i \<and> tenant_id m = Some t \<and> domain_id m = Some d)
                (s Message)))\<rparr>, s)"
    by (rule get_run_messages_DatabaseManager)
  show "sorted (map created_at (sort_key created_at
             (filter (\<lambda>m. run_id m = Some i \<and> tenant_id m = Some t \<and> domain_id m = Some d)
                (s Message))))"
    by (rule sorted_sort_key)
  show "fst (get_run_messages db i' t' d' s') \<noteq> Inl (HTTPException 404 msg)"
    by (rule get_run_messages_not_404)
next
  assume "\<forall>m \<in> set (s Message). run_id m \<noteq> Some i"
  then have "filter (\<lambda>m. run_id m = Some i \<and> tenant_id m = Some t \<and> domain_id m = Some d)
                (s Message) = []"
    by (simp add: filter_empty_conv)
  then show "get_run_messages DatabaseManager i t d s = (Inr \<lparr>status = True, data = Some []\<rparr>, s)"
    by (simp add: get_run_messages_DatabaseManager)
qed

theorem run_messages_without_run_check_witness:
  "get_run_messages DatabaseManager 1 1 1 sessions_db =
     (Inr \<lparr>status = True, data = Some [message3, message1]\<rparr>, sessions_db) \<and>
   sessions_db Message = [message1, message2, message3] \<and> sessions_db Run = [run1, run2] \<and>
   get_run_messages DatabaseManager 99 1 1 sessions_db =
     (Inr \<lparr>status = True, data = Some []\<rparr>, sessions_db)"
proof -
  have m: "sessions_db Message = [message1, message2, message3]"
    by (simp add: db_defs)
  have r: "sessions_db Run = [run1, run2]"
    by (simp add: db_defs)
  have n: "\<forall>m \<in> set (sessions_db Message). run_id m \<noteq> Some 99"
    by (simp add: m row_defs)
  have f: "sort_key created_at (filter (\<lambda>m. run_id m = Some 1 \<and> tenant_id m = Some 1 \<and>
      domain_id m = Some 1) (sessions_db Message)) = [message3, message1]"
    by (simp add: m row_defs)
  have 1: "get_run_messages DatabaseManager 1 1 1 sessions_db =
     (Inr \<lparr>status = True, data = Some [message3, message1]\<rparr>, sessions_db)"
    using run_messages_without_run_check [of 1 1 1 sessions_db, THEN conjunct1]
    unfolding f .
  have 2: "get_run_messages DatabaseManager 99 1 1 sessions_db =
     (Inr \<lparr>status = True, data = Some []\<rparr>, sessions_db)"
    using run_messages_without_run_check [of 99 1 1 sessions_db,
        THEN conjunct2, THEN conjunct2, THEN conjunct1] n
    by (rule mp)
  from 1 m r 2 show ?thesis by (intro conjI)
qed

section \<open>Ownership on update\<close>

lemma gallery_scope:
  "matches [(''id'', IntV i), (''tenant_id'', IntV t), (''domain_id'', IntV d)]
     = (\<lambda>r. row_id r = Some i \<and> tenant_id r = Some t \<and> domain_id r = Some d)"
  by (simp add: fun_eq_iff scope_simps)

lemma get_DatabaseManager:
  "get DatabaseManager s c flt None
     = Inr \<lparr>status = True, data = Some (filter (matches flt) (s c)), message = []\<rparr>"
  by (simp add: DatabaseManager_def db_get_def apply_order_def)

text \<open>
  Claim C4. When a gallery entry with the requested id exists under the tenant and domain of
  the request and no such entry belongs to the calling user, \<^verbatim>\<open>PUT /gallery/{gallery_id}\<close>
  raises HTTP 403 and leaves the database as it was.
\<close>

theorem update_gallery_forbidden:
  assumes "r \<in> set (s Gallery)"
    and "row_id r = Some g \<and> tenant_id r = Some t \<and> domain_id r = Some d"
    and "\<forall>x \<in> set (s Gallery).
           row_id x = Some g \<and> tenant_id x = Some t \<and> domain_id x = Some d \<longrightarrow> user_id x \<noteq> Some u"
  shows "update_gallery_entry DatabaseManager g gallery_data u t d s =
           (Inl (HTTPException 403 ''Not authorized to update this gallery entry''), s)"
proof -
  let ?P = "\<lambda>r. row_id r = Some g \<and> tenant_id r = Some t \<and> domain_id r = Some d"
  from assms(1,2) have "r \<in> set (filter ?P (s Gallery))" by simp
  then obtain x xs where xs: "filter ?P (s Gallery) = x # xs"
    by (cases "filter ?P (s Gallery)") auto
  then have "x \<in> set (filter ?P (s Gallery))" by simp
  then have "x \<in> set (s Gallery)" "?P x" by simp_all
  with assms(3) have "user_id x \<noteq> Some u" by blast
  with xs show ?thesis
    by (simp add: update_gallery_entry_def get_DatabaseManager gallery_scope truthy_def
        subscript0_def index0_def)
qed

theorem update_gallery_forbidden_witness:
  "gallery1 \<in> set (gallery_db Gallery) \<and>
   (row_id gallery1 = Some 1 \<and> tenant_id gallery1 = Some 1 \<and> domain_id gallery1 = Some 1) \<and>
   gallery_db Gallery = [gallery1] \<and> user_id gallery1 \<noteq> Some ''bob'' \<and>
   update_gallery_entry DatabaseManager 1 ((new_row Gallery)\<lparr>config := Some ''{x}''\<rparr>) ''bob'' 1 1
      gallery_db =
     (Inl (HTTPException 403 ''Not authorized to update this gallery entry''), gallery_db)"
proof -
  have a: "gallery1 \<in> set (gallery_db Gallery)" by (simp add: db_defs)
  have b: "row_id gallery1 = Some 1 \<and> tenant_id gallery1 = Some 1 \<and> domain_id gallery1 = Some 1"
    by (simp add: row_defs)
  have c: "\<forall>x \<in> set (gallery_db Gallery).
      row_id x = Some 1 \<and> tenant_id x = Some 1 \<and> domain_id x = Some 1 \<longrightarrow> user_id x \<noteq> Some ''bob''"
    by (simp add: db_defs row_defs)
  have e: "gallery_db Gallery = [gallery1]" "user_id gallery1 \<noteq> Some ''bob''"
    by (simp_all add: db_defs row_defs)
  from update_gallery_forbidden [where r = gallery1 and s = gallery_db and g = 1 and t = 1
      and d = 1 and u = "''bob''" and gallery_data = "(new_row Gallery)\<lparr>config := Some ''{x}''\<rparr>",
      OF a b c] a b e
  show ?thesis by blast
qed

section \<open>The default team\<close>

lemma user_scope:
  "matches [(''user_id'', StrV u), (''tenant_id'', IntV t), (''domain_id'', IntV d)]
     = (\<lambda>r. user_id r = Some u \<and> tenant_id r = Some t \<and> domain_id r = Some d)"
  by (simp add: fun_eq_iff scope_simps)

lemma db_upsert_insert:
  "row_id e = None \<Longrightarrow>
   upsert DatabaseManager s e =
     (Inr \<lparr>status = True, data = Some (e\<lparr>row_id := Some (fresh_id (s (cls e)))\<rparr>),
           message = ''Created Successfully''\<rparr>,
      s(cls e := s (cls e) @ [e\<lparr>row_id := Some (fresh_id (s (cls e)))\<rparr>]))"
  by (simp add: DatabaseManager_def db_upsert_def Let_def)

text \<open>
  Claim C6. When the database holds no team of the user under the tenant and domain, the
  first \<^verbatim>\<open>GET /teams\<close> stores one team built from the first team component of the
  default gallery and returns exactly that team; a second call on the resulting database
  returns the same single team and leaves the database unchanged, so no duplicate is made.
\<close>

theorem list_teams_default_once:
  assumes "\<forall>r \<in> set (s Team). \<not> (user_id r = Some u \<and> tenant_id r = Some t \<and> domain_id r = Some d)"
    and "components_teams g = c # cs"
  shows "list_teams DatabaseManager g u t d s =
           (Inr \<lparr>status = True, data = Some [default_team c u t d (fresh_id (s Team))]\<rparr>,
            s(Team := s Team @ [default_team c u t d (fresh_id (s Team))])) \<and>
         list_teams DatabaseManager g u t d
             (s(Team := s Team @ [default_team c u t d (fresh_id (s Team))])) =
           (Inr \<lparr>status = True, data = Some [default_team c u t d (fresh_id (s Team))]\<rparr>,
            s(Team := s Team @ [default_team c u t d (fresh_id (s Team))]))"
proof -
  let ?P = "\<lambda>r. user_id r = Some u \<and> tenant_id r = Some t \<and> domain_id r = Some d"
  let ?e = "(new_row Team)\<lparr>user_id := Some u, component := Some c,
      tenant_id := Some t, domain_id := Some d\<rparr>"
  let ?team = "default_team c u t d (fresh_id (s Team))"
  let ?s' = "s(Team := s Team @ [?team])"
  from assms(1) have none: "filter ?P (s Team) = []"
    by (simp add: filter_empty_conv)
  have e: "row_id ?e = None" "cls ?e = Team"
    by (simp_all add: new_row_def)
  have t: "?e\<lparr>row_id := Some (fresh_id (s Team))\<rparr> = ?team"
    by (simp add: default_team_def)
  have up: "upsert DatabaseManager s ?e =
     (Inr \<lparr>status = True, data = Some ?team, message = ''Created Successfully''\<rparr>, ?s')"
    using db_upsert_insert [OF e(1), of s] unfolding e(2) t .
  have P: "user_id ?team = Some u" "tenant_id ?team = Some t" "domain_id ?team = Some d"
    by (simp_all add: default_team_def)
  have one: "filter ?P (s Team @ [?team]) = [?team]"
    by (simp add: none P)
  have 1: "list_teams DatabaseManager g u t d s = (Inr \<lparr>status = True, data = Some [?team]\<rparr>, ?s')"
    unfolding list_teams_def get_DatabaseManager user_scope Let_def
    by (simp add: none P truthy_def len_def index0_def assms(2) up)
  have 2: "list_teams DatabaseManager g u t d ?s' = (Inr \<lparr>status = True, data = Some [?team]\<rparr>, ?s')"
    unfolding list_teams_def get_DatabaseManager user_scope Let_def
    by (simp add: none P truthy_def len_def)
  from 1 2 show ?thesis by (rule conjI)
qed

theorem list_teams_default_once_witness:
  "empty_db Team = [] \<and> components_teams default_gallery0 = [''{team}''] \<and>
   list_teams DatabaseManager default_gallery0 ''u1'' 1 1 empty_db =
     (Inr \<lparr>status = True, data = Some [default_team ''{team}'' ''u1'' 1 1 1]\<rparr>,
      empty_db(Team := [default_team ''{team}'' ''u1'' 1 1 1])) \<and>
   list_teams DatabaseManager default_gallery0 ''u1'' 1 1
       (empty_db(Team := [default_team ''{team}'' ''u1'' 1 1 1])) =
     (Inr \<lparr>status = True, data = Some [default_team ''{team}'' ''u1'' 1 1 1]\<rparr>,
      empty_db(Team := [default_team ''{team}'' ''u1'' 1 1 1]))"
proof -
  have a: "\<forall>r \<in> set (empty_db Team).
      \<not> (user_id r = Some ''u1'' \<and> tenant_id r = Some 1 \<and> domain_id r = Some 1)"
    by (simp add: empty_db_def)
  have b: "components_teams default_gallery0 = [''{team}'']"
    by (simp add: default_gallery0_def)
  have f: "fresh_id (empty_db Team) = 1" "empty_db Team @ [x] = [x]" for x
    by (simp_all add: fresh_id_def empty_db_def)
  from list_teams_default_once [where s = empty_db and u = "''u1''" and t = 1 and d = 1
      and g = default_gallery0 and c = "''{team}''" and cs = "[]", OF a b] b
  show ?thesis
    unfolding f by (simp add: empty_db_def)
qed

section \<open>Results of an upsert\<close>

lemma upsert_fixed_manager: "upsert (fixed_manager g u d) s e = (u, Suc s)"
  by (simp add: fixed_manager_def)

text \<open>
  Claim C7. In \<^verbatim>\<open>POST /gallery\<close>, \<^verbatim>\<open>POST /teams\<close> and \<^verbatim>\<open>PUT /settings\<close>, whenever the
  upsert returns a result: if its status is false the route raises HTTP 400 whose detail is
  the message of the result; if its status is true the route raises nothing and returns the
  result (\<^verbatim>\<open>POST /gallery\<close>) or a dictionary with status true and the data of the result
  (the other two).
\<close>

theorem upsert_status_decides:
  "(upsert db s (gallery_data\<lparr>tenant_id := Some t, domain_id := Some d\<rparr>) = (Inr r, s') \<longrightarrow>
      create_gallery_entry db gallery_data t d s =
        (if status r then (Inr r, s') else (Inl (HTTPException 400 (message r)), s'))) \<and>
   (upsert db s (team\<lparr>tenant_id := Some t, domain_id := Some d\<rparr>) = (Inr r, s') \<longrightarrow>
      create_team db team t d s =
        (if status r then (Inr \<lparr>status = True, data = data r\<rparr>, s')
         else (Inl (HTTPException 400 (message r)), s'))) \<and>
   (upsert db s (settings\<lparr>tenant_id := Some t, domain_id := Some d\<rparr>) = (Inr r, s') \<longrightarrow>
      update_settings db settings t d s =
        (if status r then (Inr \<lparr>status = True, data = data r\<rparr>, s')
         else (Inl (HTTPException 400 (message r)), s')))"
  by (simp add: create_gallery_entry_def create_team_def update_settings_def)

theorem upsert_status_decides_witness:
  "upsert (fixed_manager (Inl (Exception [])) (Inr refused) (Inl (Exception []))) 0
     (team_a\<lparr>tenant_id := Some 1, domain_id := Some 1\<rparr>) = (Inr refused, 1) \<and>
   \<not> status refused \<and>
   create_gallery_entry (fixed_manager (Inl (Exception [])) (Inr refused) (Inl (Exception []))) team_a 1 1 0 =
     (Inl (HTTPException 400 ''UNIQUE constraint failed''), 1) \<and>
   create_team (fixed_manager (Inl (Exception [])) (Inr refused) (Inl (Exception []))) team_a 1 1 0 =
     (Inl (HTTPException 400 ''UNIQUE constraint failed''), 1) \<and>
   update_settings (fixed_manager (Inl (Exception [])) (Inr refused) (Inl (Exception []))) team_a 1 1 0 =
     (Inl (HTTPException 400 ''UNIQUE constraint failed''), 1) \<and>
   upsert (fixed_manager (Inl (Exception [])) (Inr (accepted team_a)) (Inl (Exception []))) 0
     (team_a\<lparr>tenant_id := Some 1, domain_id := Some 1\<rparr>) = (Inr (accepted team_a), 1) \<and>
   status (accepted team_a) \<and>
   create_gallery_entry (fixed_manager (Inl (Exception [])) (Inr (accepted team_a)) (Inl (Exception []))) team_a 1 1 0 =
     (Inr (accepted team_a), 1) \<and>
   create_team (fixed_manager (Inl (Exception [])) (Inr (accepted team_a)) (Inl (Exception []))) team_a 1 1 0 =
     (Inr \<lparr>status = True, data = Some team_a\<rparr>, 1) \<and>
   update_settings (fixed_manager (Inl (Exception [])) (Inr (accepted team_a)) (Inl (Exception []))) team_a 1 1 0 =
     (Inr \<lparr>status = True, data = Some team_a\<rparr>, 1)"
proof -
  have u: "upsert (fixed_manager g u d) 0 e = (u, 1)" for g u d e
    by (simp add: upsert_fixed_manager)
  have r: "\<not> status refused" "message refused = ''UNIQUE constraint failed''"
    by (simp_all add: refused_def)
  have a: "status (accepted team_a)" "data (accepted team_a) = Some team_a"
    by (simp_all add: accepted_def)
  note w1 = upsert_status_decides [where db = "fixed_manager (Inl (Exception [])) (Inr refused) (Inl (Exception []))"
      and s = 0 and s' = 1 and r = refused and t = 1 and d = 1 and gallery_data = team_a
      and team = team_a and settings = team_a]
  note w2 = upsert_status_decides [where db = "fixed_manager (Inl (Exception [])) (Inr (accepted team_a)) (Inl (Exception []))"
      and s = 0 and s' = 1 and r = "accepted team_a" and t = 1 and d = 1 and gallery_data = team_a
      and team = team_a and settings = team_a]
  from w1 have 1: "create_gallery_entry (fixed_manager (Inl (Exception [])) (Inr refused) (Inl (Exception []))) team_a 1 1 0 =
     (Inl (HTTPException 400 ''UNIQUE constraint failed''), 1) \<and>
   create_team (fixed_manager (Inl (Exception [])) (Inr refused) (Inl (Exception []))) team_a 1 1 0 =
     (Inl (HTTPException 400 ''UNIQUE constraint failed''), 1) \<and>
   update_settings (fixed_manager (Inl (Exception [])) (Inr refused) (Inl (Exception []))) team_a 1 1 0 =
     (Inl (HTTPException 400 ''UNIQUE constraint failed''), 1)"
    by (simp add: u r)
  from w2 have 2: "create_gallery_entry (fixed_manager (Inl (Exception [])) (Inr (accepted team_a)) (Inl (Exception []))) team_a 1 1 0 =
     (Inr (accepted team_a), 1) \<and>
   create_team (fixed_manager (Inl (Exception [])) (Inr (accepted team_a)) (Inl (Exception []))) team_a 1 1 0 =
     (Inr \<lparr>status = True, data = Some team_a\<rparr>, 1) \<and>
   update_settings (fixed_manager (Inl (Exception [])) (Inr (accepted team_a)) (Inl (Exception []))) team_a 1 1 0 =
     (Inr \<lparr>status = True, data = Some team_a\<rparr>, 1)"
    by (simp add: u a)
  from 1 2 u r(1) a(1) show ?thesis by blast
qed

section \<open>Guards of the updating and deleting routes\<close>

lemma truthy_Cons: "truthy (Some (x # xs))"
  by (simp add: truthy_def)

lemma subscript0_Cons: "subscript0 (Some (x # xs)) = Inr x"
  by (simp add: subscript0_def index0_def)

lemma gallery_owner_scope:
  "matches [(''id'', IntV i), (''user_id'', StrV u), (''tenant_id'', IntV t), (''domain_id'', IntV d)]
     = (\<lambda>r. row_id r = Some i \<and> user_id r = Some u \<and> tenant_id r = Some t \<and> domain_id r = Some d)"
  by (rule team_scope)

lemma gallery1_fields:
  "row_id gallery1 = Some 1" "user_id gallery1 = Some ''alice''" "tenant_id gallery1 = Some 1"
  "domain_id gallery1 = Some 1" "cls gallery1 = Gallery"
  by (simp_all add: row_defs)

lemma gallery_db_tables: "gallery_db Gallery = [gallery1]" "gallery_db Team = []"
  by (simp_all add: db_defs)

lemma get_gallery_db:
  "get DatabaseManager gallery_db Gallery
     [(''id'', IntV 1), (''tenant_id'', IntV 1), (''domain_id'', IntV 1)] None
     = Inr \<lparr>status = True, data = Some [gallery1], message = []\<rparr>"
  "get DatabaseManager gallery_db Gallery
     [(''id'', IntV 99), (''tenant_id'', IntV 1), (''domain_id'', IntV 1)] None
     = Inr \<lparr>status = True, data = Some [], message = []\<rparr>"
  "get DatabaseManager gallery_db Gallery
     [(''id'', IntV 1), (''user_id'', StrV ''bob''), (''tenant_id'', IntV 1), (''domain_id'', IntV 1)] None
     = Inr \<lparr>status = True, data = Some [], message = []\<rparr>"
  "get DatabaseManager gallery_db Gallery
     [(''id'', IntV 1), (''user_id'', StrV ''alice''), (''tenant_id'', IntV 1), (''domain_id'', IntV 1)] None
     = Inr \<lparr>status = True, data = Some [gallery1], message = []\<rparr>"
  by (simp_all add: get_DatabaseManager gallery_scope gallery_owner_scope gallery_db_tables
      gallery1_fields)

text \<open>
  Claim C3, as the code has it. \<^verbatim>\<open>PUT /gallery/{gallery_id}\<close> fetches the entry by id,
  tenant and domain; it raises 404 when the fetch reports failure or finds nothing, 403 when
  the entry found belongs to another user, both without writing, and only otherwise upserts.
  \<^verbatim>\<open>DELETE /gallery/{gallery_id}\<close> fetches by id, user, tenant and domain; it raises 404
  when nothing is found, which includes an entry of another user, and only otherwise deletes
  by id, tenant and domain. \<^verbatim>\<open>DELETE /teams/{team_id}\<close> fetches nothing: it deletes by id,
  user, tenant and domain and reports success whenever the delete returns.
\<close>

theorem mutating_routes_guard:
  "(get db s Gallery [(''id'', IntV g), (''tenant_id'', IntV t), (''domain_id'', IntV d)] None = Inr res \<longrightarrow>
      (\<not> status res \<or> \<not> truthy (data res) \<longrightarrow>
         update_gallery_entry db g gallery_data u t d s =
           (Inl (HTTPException 404 ''Gallery entry not found''), s)) \<and>
      (status res \<and> data res = Some (x # xs) \<and> user_id x \<noteq> Some u \<longrightarrow>
         update_gallery_entry db g gallery_data u t d s =
           (Inl (HTTPException 403 ''Not authorized to update this gallery entry''), s)) \<and>
      (status res \<and> data res = Some (x # xs) \<and> user_id x = Some u \<longrightarrow>
         update_gallery_entry db g gallery_data u t d s =
           (case upsert db s (gallery_data\<lparr>row_id := Some g, user_id := Some u,
                   tenant_id := Some t, domain_id := Some d\<rparr>) of
              (Inl e, s') \<Rightarrow> (Inl (Raised e), s')
            | (Inr r, s') \<Rightarrow> (Inr r, s')))) \<and>
   (get db s Gallery [(''id'', IntV g), (''user_id'', StrV u), (''tenant_id'', IntV t),
        (''domain_id'', IntV d)] None = Inr res' \<longrightarrow>
      (\<not> status res' \<or> \<not> truthy (data res') \<longrightarrow>
         delete_gallery_entry db g u t d s =
           (Inl (HTTPException 404 ''Gallery entry not found''), s)) \<and>
      (status res' \<and> truthy (data res') \<longrightarrow>
         delete_gallery_entry db g u t d s =
           (case delete db s Gallery [(''id'', IntV g), (''tenant_id'', IntV t),
                   (''domain_id'', IntV d)] of
              (Inl e, s') \<Rightarrow> (Inl (Raised e), s')
            | (Inr r, s') \<Rightarrow> (Inr r, s')))) \<and>
   (delete db s Team [(''id'', IntV g), (''user_id'', StrV u), (''tenant_id'', IntV t),
        (''domain_id'', IntV d)] = (Inr r'', s'') \<longrightarrow>
      delete_team db g u t d s = (Inr (StatusMessage True ''Team deleted successfully''), s''))"
proof (intro conjI impI)
  assume "delete db s Team [(''id'', IntV g), (''user_id'', StrV u), (''tenant_id'', IntV t),
        (''domain_id'', IntV d)] = (Inr r'', s'')"
  then show "delete_team db g u t d s = (Inr (StatusMessage True ''Team deleted successfully''), s'')"
    by (simp add: delete_team_def)
next
  assume g: "get db s Gallery [(''id'', IntV g), (''tenant_id'', IntV t), (''domain_id'', IntV d)] None = Inr res"
  {
    assume "\<not> status res \<or> \<not> truthy (data res)"
    with g show "update_gallery_entry db g gallery_data u t d s =
           (Inl (HTTPException 404 ''Gallery entry not found''), s)"
      by (auto simp: update_gallery_entry_def)
  next
    assume "status res \<and> data res = Some (x # xs) \<and> user_id x \<noteq> Some u"
    with g show "update_gallery_entry db g gallery_data u t d s =
           (Inl (HTTPException 403 ''Not authorized to update this gallery entry''), s)"
      by (simp add: update_gallery_entry_def truthy_Cons subscript0_Cons)
  next
    assume "status res \<and> data res = Some (x # xs) \<and> user_id x = Some u"
    with g show "update_gallery_entry db g gallery_data u t d s =
           (case upsert db s (gallery_data\<lparr>row_id := Some g, user_id := Some u,
                   tenant_id := Some t, domain_id := Some d\<rparr>) of
              (Inl e, s') \<Rightarrow> (Inl (Raised e), s')
            | (Inr r, s') \<Rightarrow> (Inr r, s'))"
      by (simp add: update_gallery_entry_def truthy_Cons subscript0_Cons)
  }
next
  assume g: "get db s Gallery [(''id'', IntV g), (''user_id'', StrV u), (''tenant_id'', IntV t),
        (''domain_id'', IntV d)] None = Inr res'"
  {
    assume "\<not> status res' \<or> \<not> truthy (data res')"
    with g show "delete_gallery_entry db g u t d s =
           (Inl (HTTPException 404 ''Gallery entry not found''), s)"
      by (auto simp: delete_gallery_entry_def)
  next
    assume "status res' \<and> truthy (data res')"
    with g show "delete_gallery_entry db g u t d s =
           (case delete db s Gallery [(''id'', IntV g), (''tenant_id'', IntV t),
                   (''domain_id'', IntV d)] of
              (Inl e, s') \<Rightarrow> (Inl (Raised e), s')
            | (Inr r, s') \<Rightarrow> (Inr r, s'))"
      by (simp add: delete_gallery_entry_def)
  }
qed


theorem mutating_routes_guard_witness:
  "update_gallery_entry DatabaseManager 99 gallery_update ''alice'' 1 1 gallery_db =
     (Inl (HTTPException 404 ''Gallery entry not found''), gallery_db) \<and>
   update_gallery_entry DatabaseManager 1 gallery_update ''bob'' 1 1 gallery_db =
     (Inl (HTTPException 403 ''Not authorized to update this gallery entry''), gallery_db) \<and>
   fst (update_gallery_entry DatabaseManager 1 gallery_update ''alice'' 1 1 gallery_db) =
     Inr \<lparr>status = True,
          data = Some (gallery_update\<lparr>row_id := Some 1, user_id := Some ''alice'',
                   tenant_id := Some 1, domain_id := Some 1\<rparr>),
          message = ''Updated Successfully''\<rparr> \<and>
   delete_gallery_entry DatabaseManager 1 ''bob'' 1 1 gallery_db =
     (Inl (HTTPException 404 ''Gallery entry not found''), gallery_db) \<and>
   fst (delete_gallery_entry DatabaseManager 1 ''alice'' 1 1 gallery_db) =
     Inr \<lparr>status = True, data = (), message = ''Deleted Successfully''\<rparr> \<and>
   snd (delete_gallery_entry DatabaseManager 1 ''alice'' 1 1 gallery_db) Gallery = [] \<and>
   delete_team DatabaseManager 1 ''bob'' 1 1 gallery_db =
     (Inr (StatusMessage True ''Team deleted successfully''),
      snd (delete DatabaseManager gallery_db Team
             [(''id'', IntV 1), (''user_id'', StrV ''bob''), (''tenant_id'', IntV 1),
              (''domain_id'', IntV 1)]))"
proof -
  let ?hit = "\<lparr>status = True, data = Some [gallery1], message = []\<rparr>"
  let ?miss = "\<lparr>status = True, data = Some ([] :: row list), message = []\<rparr>"
  let ?del = "delete DatabaseManager gallery_db Team
             [(''id'', IntV 1), (''user_id'', StrV ''bob''), (''tenant_id'', IntV 1),
              (''domain_id'', IntV 1)]"
  have d: "?del = (Inr \<lparr>status = True, data = (), message = []\<rparr>, snd ?del)"
    by (simp add: prod_eq_iff DatabaseManager_def db_delete_def gallery_owner_scope
        gallery_db_tables)
  have up: "upsert DatabaseManager gallery_db
      (gallery_update\<lparr>row_id := Some 1, user_id := Some ''alice'', tenant_id := Some 1,
         domain_id := Some 1\<rparr>) =
      (Inr \<lparr>status = True,
            data = Some (gallery_update\<lparr>row_id := Some 1, user_id := Some ''alice'',
                     tenant_id := Some 1, domain_id := Some 1\<rparr>),
            message = ''Updated Successfully''\<rparr>,
       gallery_db(Gallery := [gallery_update\<lparr>row_id := Some 1, user_id := Some ''alice'',
                     tenant_id := Some 1, domain_id := Some 1\<rparr>]))"
    by (simp add: DatabaseManager_def db_upsert_def gallery_update_def new_row_def
        gallery_db_tables gallery1_fields)
  have dg: "delete DatabaseManager gallery_db Gallery
      [(''id'', IntV 1), (''tenant_id'', IntV 1), (''domain_id'', IntV 1)] =
      (Inr \<lparr>status = True, data = (), message = ''Deleted Successfully''\<rparr>,
       gallery_db(Gallery := []))"
    by (simp add: DatabaseManager_def db_delete_def Let_def cascade_def gallery_scope
        gallery_db_tables gallery1_fields)
  note w_missing = mutating_routes_guard [where db = DatabaseManager and s = gallery_db
      and g = 99 and t = 1 and d = 1 and u = "''alice''" and res = ?miss
      and gallery_data = gallery_update]
  note w_other = mutating_routes_guard [where db = DatabaseManager and s = gallery_db
      and g = 1 and t = 1 and d = 1 and u = "''bob''" and res = ?hit and x = gallery1
      and xs = "[]" and res' = ?miss and gallery_data = gallery_update
      and r'' = "\<lparr>status = True, data = (), message = []\<rparr>" and s'' = "snd ?del"]
  note w_owner = mutating_routes_guard [where db = DatabaseManager and s = gallery_db
      and g = 1 and t = 1 and d = 1 and u = "''alice''" and res = ?hit and x = gallery1
      and xs = "[]" and res' = ?hit and gallery_data = gallery_update]
  have 1: "update_gallery_entry DatabaseManager 99 gallery_update ''alice'' 1 1 gallery_db =
     (Inl (HTTPException 404 ''Gallery entry not found''), gallery_db)"
    using w_missing by (simp add: get_gallery_db truthy_def)
  have 2: "update_gallery_entry DatabaseManager 1 gallery_update ''bob'' 1 1 gallery_db =
     (Inl (HTTPException 403 ''Not authorized to update this gallery entry''), gallery_db)"
    using w_other by (simp add: get_gallery_db gallery1_fields)
  have 3: "delete_gallery_entry DatabaseManager 1 ''bob'' 1 1 gallery_db =
     (Inl (HTTPException 404 ''Gallery entry not found''), gallery_db)"
    using w_other by (simp add: get_gallery_db truthy_def)
  have 4: "delete_team DatabaseManager 1 ''bob'' 1 1 gallery_db =
     (Inr (StatusMessage True ''Team deleted successfully''), snd ?del)"
    using w_other d by blast
  have 5: "update_gallery_entry DatabaseManager 1 gallery_update ''alice'' 1 1 gallery_db =
     (case upsert DatabaseManager gallery_db (gallery_update\<lparr>row_id := Some 1,
              user_id := Some ''alice'', tenant_id := Some 1, domain_id := Some 1\<rparr>) of
        (Inl e, s') \<Rightarrow> (Inl (Raised e), s') | (Inr r, s') \<Rightarrow> (Inr r, s'))"
    using w_owner by (simp add: get_gallery_db gallery1_fields)
  have 6: "delete_gallery_entry DatabaseManager 1 ''alice'' 1 1 gallery_db =
     (case delete DatabaseManager gallery_db Gallery
             [(''id'', IntV 1), (''tenant_id'', IntV 1), (''domain_id'', IntV 1)] of
        (Inl e, s') \<Rightarrow> (Inl (Raised e), s') | (Inr r, s') \<Rightarrow> (Inr r, s'))"
    using w_owner by (simp add: get_gallery_db truthy_def)
  from 1 2 3 4 show ?thesis
    unfolding 5 6 up dg by simp
qed

text \<open>
  The claim as first stated, a 404 for a missing row and a 403 for a foreign owner on every
  update and delete route, fails: deleting a team that does not exist reports success, and
  deleting a gallery entry of another user raises 404, not 403.
\<close>

theorem mutating_routes_guard_counterexample:
  "two_tenants Team = [team_a, team_b] \<and> row_id team_a \<noteq> Some 99 \<and> row_id team_b \<noteq> Some 99 \<and>
   fst (delete_team DatabaseManager 99 ''u1'' 1 1 two_tenants) =
     Inr (StatusMessage True ''Team deleted successfully'') \<and>
   gallery_db Gallery = [gallery1] \<and> row_id gallery1 = Some 1 \<and> tenant_id gallery1 = Some 1 \<and>
   domain_id gallery1 = Some 1 \<and> user_id gallery1 = Some ''alice'' \<and>
   delete_gallery_entry DatabaseManager 1 ''bob'' 1 1 gallery_db =
     (Inl (HTTPException 404 ''Gallery entry not found''), gallery_db)"
proof -
  have 1: "two_tenants Team = [team_a, team_b]" by (simp add: db_defs)
  have 2: "row_id team_a \<noteq> Some 99" "row_id team_b \<noteq> Some 99" by (simp_all add: row_defs)
  have 3: "fst (delete_team DatabaseManager 99 ''u1'' 1 1 two_tenants) =
     Inr (StatusMessage True ''Team deleted successfully'')"
    by (simp add: delete_team_DatabaseManager)
  have 4: "delete_gallery_entry DatabaseManager 1 ''bob'' 1 1 gallery_db =
     (Inl (HTTPException 404 ''Gallery entry not found''), gallery_db)"
    by (simp add: delete_gallery_entry_def get_DatabaseManager gallery_owner_scope
        gallery_db_tables gallery1_fields truthy_def)
  from 1 2 3 4 gallery_db_tables(1) gallery1_fields show ?thesis by simp
qed


section \<open>Tenant and domain of a stored entity\<close>













section \<open>Exceptions raised while handling\<close>

lemma get_fixed_manager: "get (fixed_manager g u d) s c flt ord = g"
  by (simp add: fixed_manager_def)

lemma get_staged_manager:
  "get (staged_manager g0 g1 u d) s c flt ord = (if s = 0 then g0 else g1)"
  by (simp add: staged_manager_def)

lemma upsert_staged_manager: "upsert (staged_manager g0 g1 u d) s e = (u, Suc s)"
  by (simp add: staged_manager_def)

lemma get_settings_no_Exception_leaves:
  "fst (get_settings db cfg u t d s) \<noteq> Inl (Raised (Exception e))"
  by (simp add: get_settings_def split: prod.splits sum.splits exc.splits)

lemma get_settings_only_500:
  "fst (get_settings db cfg u t d s) = Inl (HTTPException c m) \<Longrightarrow> c = 500"
  by (auto simp: get_settings_def get_settings_try_def Let_def
      split: prod.splits sum.splits exc.splits if_splits)

lemma list_gallery_entries_no_HTTPException:
  "fst (list_gallery_entries db g u t d s) \<noteq> Inl (HTTPException c m)"
  by (simp add: list_gallery_entries_def split: prod.splits sum.splits exc.splits)

lemma list_gallery_entries_no_Exception_leaves:
  "fst (list_gallery_entries db g u t d s) \<noteq> Inl (Raised (Exception e))"
  by (simp add: list_gallery_entries_def split: prod.splits sum.splits exc.splits)

lemma create_run_no_Exception_leaves:
  "get db s Session [(''id'', IntV i), (''user_id'', StrV u), (''tenant_id'', IntV t),
        (''domain_id'', IntV d)] None = Inr res \<Longrightarrow>
   fst (create_run db i u t d s) \<noteq> Inl (Raised (Exception e))"
  by (simp add: create_run_def split: prod.splits sum.splits exc.splits)

text \<open>
  Claim C8, as the code has it. \<^verbatim>\<open>get_settings\<close> is one \<^verbatim>\<open>try\<close> block with an
  \<^verbatim>\<open>except Exception\<close> clause. At every place where it can raise (the first read, the
  upsert of the default settings, the second read, and \<^verbatim>\<open>data[0]\<close> on a result without
  rows) an instance of \<^verbatim>\<open>Exception\<close> is surfaced as HTTP 500 whose detail is the text of
  the exception; no such exception leaves the handler and no other status code is raised.
  In \<^verbatim>\<open>create_run\<close> the block starts after the session has been looked up: an exception
  of the lookup leaves the handler as it is, one of the upsert, or of reading the id of a
  result without data, is surfaced as HTTP 500 with its text. \<^verbatim>\<open>list_gallery_entries\<close>
  raises no HTTP error: at each of its three places (the first read, the upsert of the default
  gallery, the second read) it turns an instance of \<^verbatim>\<open>Exception\<close> into a response with
  status false, no rows, and the text of the exception behind a fixed prefix. An exception
  that is not an instance of \<^verbatim>\<open>Exception\<close> is caught by none of the three.
\<close>

theorem handled_exceptions:
  "(get db s Settings [(''user_id'', StrV u), (''tenant_id'', IntV t), (''domain_id'', IntV d)] None
      = Inl x \<longrightarrow>
      get_settings db cfg u t d s =
        (Inl (case x of Exception e \<Rightarrow> HTTPException 500 e | BaseException e \<Rightarrow> Raised x), s)) \<and>
   (get db s Settings [(''user_id'', StrV u), (''tenant_id'', IntV t), (''domain_id'', IntV d)] None
      = Inr res \<and> (\<not> status res \<or> \<not> truthy (data res)) \<and>
    upsert db s ((new_row Settings)\<lparr>user_id := Some u, config := Some cfg,
        tenant_id := Some t, domain_id := Some d\<rparr>) = (Inl x, s') \<longrightarrow>
      get_settings db cfg u t d s =
        (Inl (case x of Exception e \<Rightarrow> HTTPException 500 e | BaseException e \<Rightarrow> Raised x), s')) \<and>
   (get db s Settings [(''user_id'', StrV u), (''tenant_id'', IntV t), (''domain_id'', IntV d)] None
      = Inr res \<and> (\<not> status res \<or> \<not> truthy (data res)) \<and>
    upsert db s ((new_row Settings)\<lparr>user_id := Some u, config := Some cfg,
        tenant_id := Some t, domain_id := Some d\<rparr>) = (Inr r, s') \<and>
    get db s' Settings [(''user_id'', StrV u), (''tenant_id'', IntV t), (''domain_id'', IntV d)] None
      = Inl x \<longrightarrow>
      get_settings db cfg u t d s =
        (Inl (case x of Exception e \<Rightarrow> HTTPException 500 e | BaseException e \<Rightarrow> Raised x), s')) \<and>
   (get db s Settings [(''user_id'', StrV u), (''tenant_id'', IntV t), (''domain_id'', IntV d)] None
      = Inr res \<and> (\<not> status res \<or> \<not> truthy (data res)) \<and>
    upsert db s ((new_row Settings)\<lparr>user_id := Some u, config := Some cfg,
        tenant_id := Some t, domain_id := Some d\<rparr>) = (Inr r, s') \<and>
    get db s' Settings [(''user_id'', StrV u), (''tenant_id'', IntV t), (''domain_id'', IntV d)] None
      = Inr res' \<and> data res' = None \<longrightarrow>
      get_settings db cfg u t d s =
        (Inl (HTTPException 500 (quoted ''NoneType'' @ '' object is not subscriptable'')), s')) \<and>
   (get db s Settings [(''user_id'', StrV u), (''tenant_id'', IntV t), (''domain_id'', IntV d)] None
      = Inr res \<and> (\<not> status res \<or> \<not> truthy (data res)) \<and>
    upsert db s ((new_row Settings)\<lparr>user_id := Some u, config := Some cfg,
        tenant_id := Some t, domain_id := Some d\<rparr>) = (Inr r, s') \<and>
    get db s' Settings [(''user_id'', StrV u), (''tenant_id'', IntV t), (''domain_id'', IntV d)] None
      = Inr res' \<and> data res' = Some [] \<longrightarrow>
      get_settings db cfg u t d s = (Inl (HTTPException 500 ''list index out of range''), s')) \<and>
   fst (get_settings db cfg u t d s) \<noteq> Inl (Raised (Exception e)) \<and>
   (fst (get_settings db cfg u t d s) = Inl (HTTPException c m) \<longrightarrow> c = 500) \<and>
   (get db s Session [(''id'', IntV i), (''user_id'', StrV u), (''tenant_id'', IntV t),
        (''domain_id'', IntV d)] None = Inl x \<longrightarrow>
      create_run db i u t d s = (Inl (Raised x), s)) \<and>
   (get db s Session [(''id'', IntV i), (''user_id'', StrV u), (''tenant_id'', IntV t),
        (''domain_id'', IntV d)] None = Inr res \<and> status res \<and> truthy (data res) \<and>
    upsert db s ((new_row Run)\<lparr>session_id := Some i, run_status := Some CREATED,
        user_id := Some u, task := Some ''{}'', team_result := Some ''{}'',
        tenant_id := Some t, domain_id := Some d\<rparr>) = (Inl x, s') \<longrightarrow>
      create_run db i u t d s =
        (Inl (case x of Exception e \<Rightarrow> HTTPException 500 e | BaseException e \<Rightarrow> Raised x), s')) \<and>
   (get db s Session [(''id'', IntV i), (''user_id'', StrV u), (''tenant_id'', IntV t),
        (''domain_id'', IntV d)] None = Inr res \<and> status res \<and> truthy (data res) \<and>
    upsert db s ((new_row Run)\<lparr>session_id := Some i, run_status := Some CREATED,
        user_id := Some u, task := Some ''{}'', team_result := Some ''{}'',
        tenant_id := Some t, domain_id := Some d\<rparr>) = (Inr run, s') \<and> data run = None \<longrightarrow>
      create_run db i u t d s =
        (Inl (HTTPException 500
           (quoted ''NoneType'' @ '' object has no attribute '' @ quoted ''id'')), s')) \<and>
   (get db s Session [(''id'', IntV i), (''user_id'', StrV u), (''tenant_id'', IntV t),
        (''domain_id'', IntV d)] None = Inr res \<longrightarrow>
      fst (create_run db i u t d s) \<noteq> Inl (Raised (Exception e))) \<and>
   (get db s Gallery [(''user_id'', StrV u), (''tenant_id'', IntV t), (''domain_id'', IntV d)] None
      = Inl x \<longrightarrow>
      list_gallery_entries db g u t d s =
        (case x of
           Exception e \<Rightarrow>
             Inr \<lparr>status = False, data = Some [],
                  message = ''Error retrieving gallery entries: '' @ e\<rparr>
         | BaseException e \<Rightarrow> Inl (Raised x), s)) \<and>
   (get db s Gallery [(''user_id'', StrV u), (''tenant_id'', IntV t), (''domain_id'', IntV d)] None
      = Inr res \<and> (\<not> truthy (data res) \<or> len (data res) = 0) \<and>
    upsert db s ((new_row Gallery)\<lparr>user_id := Some u, config := Some (model_dump g),
        tenant_id := Some t, domain_id := Some d\<rparr>) = (Inl x, s') \<longrightarrow>
      list_gallery_entries db g u t d s =
        (case x of
           Exception e \<Rightarrow>
             Inr \<lparr>status = False, data = Some [],
                  message = ''Error retrieving gallery entries: '' @ e\<rparr>
         | BaseException e \<Rightarrow> Inl (Raised x), s')) \<and>
   (get db s Gallery [(''user_id'', StrV u), (''tenant_id'', IntV t), (''domain_id'', IntV d)] None
      = Inr res \<and> (\<not> truthy (data res) \<or> len (data res) = 0) \<and>
    upsert db s ((new_row Gallery)\<lparr>user_id := Some u, config := Some (model_dump g),
        tenant_id := Some t, domain_id := Some d\<rparr>) = (Inr r, s') \<and>
    get db s' Gallery [(''user_id'', StrV u), (''tenant_id'', IntV t), (''domain_id'', IntV d)] None
      = Inl x \<longrightarrow>
      list_gallery_entries db g u t d s =
        (case x of
           Exception e \<Rightarrow>
             Inr \<lparr>status = False, data = Some [],
                  message = ''Error retrieving gallery entries: '' @ e\<rparr>
         | BaseException e \<Rightarrow> Inl (Raised x), s')) \<and>
   fst (list_gallery_entries db g u t d s) \<noteq> Inl (HTTPException c m) \<and>
   fst (list_gallery_entries db g u t d s) \<noteq> Inl (Raised (Exception e))"
proof (intro conjI impI)
  show "fst (get_settings db cfg u t d s) \<noteq> Inl (Raised (Exception e))"
    by (rule get_settings_no_Exception_leaves)
  show "fst (list_gallery_entries db g u t d s) \<noteq> Inl (HTTPException c m)"
    by (rule list_gallery_entries_no_HTTPException)
  show "fst (list_gallery_entries db g u t d s) \<noteq> Inl (Raised (Exception e))"
    by (rule list_gallery_entries_no_Exception_leaves)
next
  assume "fst (get_settings db cfg u t d s) = Inl (HTTPException c m)"
  then show "c = 500" by (rule get_settings_only_500)
next
  assume "get db s Settings [(''user_id'', StrV u), (''tenant_id'', IntV t),
      (''domain_id'', IntV d)] None = Inl x"
  then show "get_settings db cfg u t d s =
        (Inl (case x of Exception e \<Rightarrow> HTTPException 500 e | BaseException e \<Rightarrow> Raised x), s)"
    by (simp add: get_settings_def get_settings_try_def split: exc.splits)
next
  assume "get db s Settings [(''user_id'', StrV u), (''tenant_id'', IntV t),
      (''domain_id'', IntV d)] None = Inr res \<and> (\<not> status res \<or> \<not> truthy (data res)) \<and>
    upsert db s ((new_row Settings)\<lparr>user_id := Some u, config := Some cfg,
        tenant_id := Some t, domain_id := Some d\<rparr>) = (Inl x, s')"
  then show "get_settings db cfg u t d s =
        (Inl (case x of Exception e \<Rightarrow> HTTPException 500 e | BaseException e \<Rightarrow> Raised x), s')"
    by (auto simp: get_settings_def get_settings_try_def Let_def split: exc.splits)
next
  assume "get db s Settings [(''user_id'', StrV u), (''tenant_id'', IntV t),
      (''domain_id'', IntV d)] None = Inr res \<and> (\<not> status res \<or> \<not> truthy (data res)) \<and>
    upsert db s ((new_row Settings)\<lparr>user_id := Some u, config := Some cfg,
        tenant_id := Some t, domain_id := Some d\<rparr>) = (Inr r, s') \<and>
    get db s' Settings [(''user_id'', StrV u), (''tenant_id'', IntV t), (''domain_id'', IntV d)] None
      = Inl x"
  then show "get_settings db cfg u t d s =
        (Inl (case x of Exception e \<Rightarrow> HTTPException 500 e | BaseException e \<Rightarrow> Raised x), s')"
    by (auto simp: get_settings_def get_settings_try_def Let_def split: exc.splits)
next
  assume "get db s Settings [(''user_id'', StrV u), (''tenant_id'', IntV t),
      (''domain_id'', IntV d)] None = Inr res \<and> (\<not> status res \<or> \<not> truthy (data res)) \<and>
    upsert db s ((new_row Settings)\<lparr>user_id := Some u, config := Some cfg,
        tenant_id := Some t, domain_id := Some d\<rparr>) = (Inr r, s') \<and>
    get db s' Settings [(''user_id'', StrV u), (''tenant_id'', IntV t), (''domain_id'', IntV d)] None
      = Inr res' \<and> data res' = None"
  then show "get_settings db cfg u t d s =
        (Inl (HTTPException 500 (quoted ''NoneType'' @ '' object is not subscriptable'')), s')"
    by (auto simp: get_settings_def get_settings_try_def Let_def subscript0_def)
next
  assume "get db s Settings [(''user_id'', StrV u), (''tenant_id'', IntV t),
      (''domain_id'', IntV d)] None = Inr res \<and> (\<not> status res \<or> \<not> truthy (data res)) \<and>
    upsert db s ((new_row Settings)\<lparr>user_id := Some u, config := Some cfg,
        tenant_id := Some t, domain_id := Some d\<rparr>) = (Inr r, s') \<and>
    get db s' Settings [(''user_id'', StrV u), (''tenant_id'', IntV t), (''domain_id'', IntV d)] None
      = Inr res' \<and> data res' = Some []"
  then show "get_settings db cfg u t d s = (Inl (HTTPException 500 ''list index out of range''), s')"
    by (auto simp: get_settings_def get_settings_try_def Let_def subscript0_def index0_def)
next
  assume "get db s Session [(''id'', IntV i), (''user_id'', StrV u), (''tenant_id'', IntV t),
        (''domain_id'', IntV d)] None = Inl x"
  then show "create_run db i u t d s = (Inl (Raised x), s)"
    by (simp add: create_run_def)
next
  assume "get db s Session [(''id'', IntV i), (''user_id'', StrV u), (''tenant_id'', IntV t),
        (''domain_id'', IntV d)] None = Inr res \<and> status res \<and> truthy (data res) \<and>
    upsert db s ((new_row Run)\<lparr>session_id := Some i, run_status := Some CREATED,
        user_id := Some u, task := Some ''{}'', team_result := Some ''{}'',
        tenant_id := Some t, domain_id := Some d\<rparr>) = (Inl x, s')"
  then show "create_run db i u t d s =
        (Inl (case x of Exception e \<Rightarrow> HTTPException 500 e | BaseException e \<Rightarrow> Raised x), s')"
    by (simp add: create_run_def create_run_try_def split: exc.splits)
next
  assume "get db s Session [(''id'', IntV i), (''user_id'', StrV u), (''tenant_id'', IntV t),
        (''domain_id'', IntV d)] None = Inr res \<and> status res \<and> truthy (data res) \<and>
    upsert db s ((new_row Run)\<lparr>session_id := Some i, run_status := Some CREATED,
        user_id := Some u, task := Some ''{}'', team_result := Some ''{}'',
        tenant_id := Some t, domain_id := Some d\<rparr>) = (Inr run, s') \<and> data run = None"
  then show "create_run db i u t d s =
        (Inl (HTTPException 500
           (quoted ''NoneType'' @ '' object has no attribute '' @ quoted ''id'')), s')"
    by (simp add: create_run_def create_run_try_def attr_id_def)
next
  assume "get db s Session [(''id'', IntV i), (''user_id'', StrV u), (''tenant_id'', IntV t),
        (''domain_id'', IntV d)] None = Inr res"
  then show "fst (create_run db i u t d s) \<noteq> Inl (Raised (Exception e))"
    by (rule create_run_no_Exception_leaves)
next
  assume "get db s Gallery [(''user_id'', StrV u), (''tenant_id'', IntV t),
      (''domain_id'', IntV d)] None = Inl x"
  then show "list_gallery_entries db g u t d s =
        (case x of
           Exception e \<Rightarrow>
             Inr \<lparr>status = False, data = Some [],
                  message = ''Error retrieving gallery entries: '' @ e\<rparr>
         | BaseException e \<Rightarrow> Inl (Raised x), s)"
    by (simp add: list_gallery_entries_def list_gallery_entries_try_def split: exc.splits)
next
  assume "get db s Gallery [(''user_id'', StrV u), (''tenant_id'', IntV t),
      (''domain_id'', IntV d)] None = Inr res \<and> (\<not> truthy (data res) \<or> len (data res) = 0) \<and>
    upsert db s ((new_row Gallery)\<lparr>user_id := Some u, config := Some (model_dump g),
        tenant_id := Some t, domain_id := Some d\<rparr>) = (Inl x, s')"
  then show "list_gallery_entries db g u t d s =
        (case x of
           Exception e \<Rightarrow>
             Inr \<lparr>status = False, data = Some [],
                  message = ''Error retrieving gallery entries: '' @ e\<rparr>
         | BaseException e \<Rightarrow> Inl (Raised x), s')"
    by (auto simp: list_gallery_entries_def list_gallery_entries_try_def Let_def
        split: exc.splits)
next
  assume "get db s Gallery [(''user_id'', StrV u), (''tenant_id'', IntV t),
      (''domain_id'', IntV d)] None = Inr res \<and> (\<not> truthy (data res) \<or> len (data res) = 0) \<and>
    upsert db s ((new_row Gallery)\<lparr>user_id := Some u, config := Some (model_dump g),
        tenant_id := Some t, domain_id := Some d\<rparr>) = (Inr r, s') \<and>
    get db s' Gallery [(''user_id'', StrV u), (''tenant_id'', IntV t), (''domain_id'', IntV d)] None
      = Inl x"
  then show "list_gallery_entries db g u t d s =
        (case x of
           Exception e \<Rightarrow>
             Inr \<lparr>status = False, data = Some [],
                  message = ''Error retrieving gallery entries: '' @ e\<rparr>
         | BaseException e \<Rightarrow> Inl (Raised x), s')"
    by (auto simp: list_gallery_entries_def list_gallery_entries_try_def Let_def
        split: exc.splits)
qed


theorem handled_exceptions_witness:
  "get_settings (fixed_manager (Inl (Exception ''boom'')) (Inl (Exception [])) (Inl (Exception [])))
       ''{}'' ''u1'' 1 1 0 =
     (Inl (HTTPException 500 ''boom''), 0) \<and>
   get_settings (fixed_manager (Inl (BaseException ''cancelled'')) (Inl (Exception []))
       (Inl (Exception []))) ''{}'' ''u1'' 1 1 0 =
     (Inl (Raised (BaseException ''cancelled'')), 0) \<and>
   get_settings (fixed_manager (Inr \<lparr>status = True, data = Some [], message = []\<rparr>)
       (Inl (Exception ''boom'')) (Inl (Exception []))) ''{}'' ''u1'' 1 1 0 =
     (Inl (HTTPException 500 ''boom''), 1) \<and>
   get_settings (staged_manager (Inr \<lparr>status = True, data = Some [], message = []\<rparr>)
       (Inl (Exception ''boom'')) (Inr refused) (Inl (Exception []))) ''{}'' ''u1'' 1 1 0 =
     (Inl (HTTPException 500 ''boom''), 1) \<and>
   get_settings (staged_manager (Inr \<lparr>status = True, data = Some [], message = []\<rparr>)
       (Inr \<lparr>status = True, data = None, message = []\<rparr>) (Inr refused) (Inl (Exception [])))
       ''{}'' ''u1'' 1 1 0 =
     (Inl (HTTPException 500 (quoted ''NoneType'' @ '' object is not subscriptable'')), 1) \<and>
   get_settings (fixed_manager (Inr \<lparr>status = True, data = Some [], message = []\<rparr>)
       (Inr refused) (Inl (Exception []))) ''{}'' ''u1'' 1 1 0 =
     (Inl (HTTPException 500 ''list index out of range''), 1) \<and>
   create_run (fixed_manager (Inl (Exception ''boom'')) (Inl (Exception [])) (Inl (Exception [])))
       1 ''u1'' 1 1 0 =
     (Inl (Raised (Exception ''boom'')), 0) \<and>
   create_run (fixed_manager (Inr \<lparr>status = True, data = Some [session1], message = []\<rparr>)
       (Inl (Exception ''boom'')) (Inl (Exception []))) 1 ''u1'' 1 1 0 =
     (Inl (HTTPException 500 ''boom''), 1) \<and>
   create_run (fixed_manager (Inr \<lparr>status = True, data = Some [session1], message = []\<rparr>)
       (Inr refused) (Inl (Exception []))) 1 ''u1'' 1 1 0 =
     (Inl (HTTPException 500 (quoted ''NoneType'' @ '' object has no attribute '' @ quoted ''id'')),
      1) \<and>
   list_gallery_entries (fixed_manager (Inl (Exception ''boom'')) (Inl (Exception []))
       (Inl (Exception []))) default_gallery0 ''u1'' 1 1 0 =
     (Inr \<lparr>status = False, data = Some [], message = ''Error retrieving gallery entries: boom''\<rparr>,
      0) \<and>
   list_gallery_entries (fixed_manager (Inr \<lparr>status = True, data = Some [], message = []\<rparr>)
       (Inl (Exception ''boom'')) (Inl (Exception []))) default_gallery0 ''u1'' 1 1 0 =
     (Inr \<lparr>status = False, data = Some [], message = ''Error retrieving gallery entries: boom''\<rparr>,
      1) \<and>
   list_gallery_entries (staged_manager (Inr \<lparr>status = True, data = Some [], message = []\<rparr>)
       (Inl (Exception ''boom'')) (Inr refused) (Inl (Exception []))) default_gallery0 ''u1'' 1 1 0 =
     (Inr \<lparr>status = False, data = Some [], message = ''Error retrieving gallery entries: boom''\<rparr>,
      1)"
proof -
  let ?x = "Inl (Exception []) :: exc + (row option) response"
  let ?y = "Inl (Exception []) :: exc + unit response"
  let ?none = "\<lparr>status = True, data = Some ([] :: row list), message = []\<rparr>"
  let ?null = "\<lparr>status = True, data = (None :: row list option), message = []\<rparr>"
  let ?one = "\<lparr>status = True, data = Some [session1], message = []\<rparr>"
  have u: "upsert (fixed_manager g u d) 0 e = (u, 1)" for g u d e
    by (simp add: upsert_fixed_manager)
  have n: "data refused = None" by (simp add: refused_def)
  have k: "\<not> truthy (Some [])" "truthy (Some [session1])"
    by (simp_all add: truthy_def)
  note a1 = handled_exceptions [where db = "fixed_manager (Inl (Exception ''boom'')) ?x ?y"
      and s = 0 and x = "Exception ''boom''" and u = "''u1''" and t = 1 and d = 1
      and cfg = "''{}''" and g = default_gallery0 and i = 1]
  note a2 = handled_exceptions [where db = "fixed_manager (Inl (BaseException ''cancelled'')) ?x ?y"
      and s = 0 and x = "BaseException ''cancelled''" and u = "''u1''" and t = 1 and d = 1
      and cfg = "''{}''"]
  note a3 = handled_exceptions [where db = "fixed_manager (Inr ?none) (Inl (Exception ''boom'')) ?y"
      and s = 0 and s' = 1 and x = "Exception ''boom''" and u = "''u1''" and t = 1 and d = 1
      and cfg = "''{}''" and res = ?none and g = default_gallery0]
  note a4 = handled_exceptions [where db = "staged_manager (Inr ?none) (Inl (Exception ''boom''))
        (Inr refused) ?y"
      and s = 0 and s' = 1 and x = "Exception ''boom''" and u = "''u1''" and t = 1 and d = 1
      and cfg = "''{}''" and res = ?none and r = refused and g = default_gallery0]
  note a5 = handled_exceptions [where db = "staged_manager (Inr ?none) (Inr ?null) (Inr refused) ?y"
      and s = 0 and s' = 1 and u = "''u1''" and t = 1 and d = 1
      and cfg = "''{}''" and res = ?none and r = refused and res' = ?null]
  note a6 = handled_exceptions [where db = "fixed_manager (Inr ?none) (Inr refused) ?y"
      and s = 0 and s' = 1 and u = "''u1''" and t = 1 and d = 1
      and cfg = "''{}''" and res = ?none and r = refused and res' = ?none]
  note a7 = handled_exceptions [where db = "fixed_manager (Inr ?one) (Inl (Exception ''boom'')) ?y"
      and s = 0 and s' = 1 and x = "Exception ''boom''" and u = "''u1''" and t = 1 and d = 1
      and i = 1 and res = ?one]
  note a8 = handled_exceptions [where db = "fixed_manager (Inr ?one) (Inr refused) ?y"
      and s = 0 and s' = 1 and u = "''u1''" and t = 1 and d = 1 and i = 1
      and res = ?one and run = refused]
  have 1: "get_settings (fixed_manager (Inl (Exception ''boom'')) ?x ?y) ''{}'' ''u1'' 1 1 0 =
     (Inl (HTTPException 500 ''boom''), 0)"
    using a1 [THEN conjunct1] by (simp add: get_fixed_manager)
  have 2: "get_settings (fixed_manager (Inl (BaseException ''cancelled'')) ?x ?y) ''{}'' ''u1'' 1 1 0 =
     (Inl (Raised (BaseException ''cancelled'')), 0)"
    using a2 [THEN conjunct1] by (simp add: get_fixed_manager)
  have 3: "get_settings (fixed_manager (Inr ?none) (Inl (Exception ''boom'')) ?y) ''{}'' ''u1'' 1 1 0 =
     (Inl (HTTPException 500 ''boom''), 1)"
    using a3 [THEN conjunct2, THEN conjunct1] by (simp add: get_fixed_manager u k)
  have 4: "get_settings (staged_manager (Inr ?none) (Inl (Exception ''boom'')) (Inr refused) ?y)
       ''{}'' ''u1'' 1 1 0 =
     (Inl (HTTPException 500 ''boom''), 1)"
    using a4 [THEN conjunct2, THEN conjunct2, THEN conjunct1] by (simp add: get_staged_manager upsert_staged_manager k)
  have 5: "get_settings (staged_manager (Inr ?none) (Inr ?null) (Inr refused) ?y)
       ''{}'' ''u1'' 1 1 0 =
     (Inl (HTTPException 500 (quoted ''NoneType'' @ '' object is not subscriptable'')), 1)"
    using a5 [THEN conjunct2, THEN conjunct2, THEN conjunct2, THEN conjunct1] by (simp add: get_staged_manager upsert_staged_manager k)
  have 6: "get_settings (fixed_manager (Inr ?none) (Inr refused) ?y) ''{}'' ''u1'' 1 1 0 =
     (Inl (HTTPException 500 ''list index out of range''), 1)"
    using a6 [THEN conjunct2, THEN conjunct2, THEN conjunct2, THEN conjunct2, THEN conjunct1] by (simp add: get_fixed_manager u k)
  have 7: "create_run (fixed_manager (Inl (Exception ''boom'')) ?x ?y) 1 ''u1'' 1 1 0 =
     (Inl (Raised (Exception ''boom'')), 0)"
    using a1 [THEN conjunct2, THEN conjunct2, THEN conjunct2, THEN conjunct2, THEN conjunct2, THEN conjunct2, THEN conjunct2, THEN conjunct1] by (simp add: get_fixed_manager)
  have 8: "create_run (fixed_manager (Inr ?one) (Inl (Exception ''boom'')) ?y) 1 ''u1'' 1 1 0 =
     (Inl (HTTPException 500 ''boom''), 1)"
    using a7 [THEN conjunct2, THEN conjunct2, THEN conjunct2, THEN conjunct2, THEN conjunct2, THEN conjunct2, THEN conjunct2, THEN conjunct2, THEN conjunct1] by (simp add: get_fixed_manager u k)
  have 9: "create_run (fixed_manager (Inr ?one) (Inr refused) ?y) 1 ''u1'' 1 1 0 =
     (Inl (HTTPException 500 (quoted ''NoneType'' @ '' object has no attribute '' @ quoted ''id'')),
      1)"
    using a8 [THEN conjunct2, THEN conjunct2, THEN conjunct2, THEN conjunct2, THEN conjunct2, THEN conjunct2, THEN conjunct2, THEN conjunct2, THEN conjunct2, THEN conjunct1] by (simp add: get_fixed_manager u k n)
  have 10: "list_gallery_entries (fixed_manager (Inl (Exception ''boom'')) ?x ?y) default_gallery0
       ''u1'' 1 1 0 =
     (Inr \<lparr>status = False, data = Some [], message = ''Error retrieving gallery entries: boom''\<rparr>,
      0)"
    using a1 [THEN conjunct2, THEN conjunct2, THEN conjunct2, THEN conjunct2, THEN conjunct2, THEN conjunct2, THEN conjunct2, THEN conjunct2, THEN conjunct2, THEN conjunct2, THEN conjunct2, THEN conjunct1] by (simp add: get_fixed_manager)
  have 11: "list_gallery_entries (fixed_manager (Inr ?none) (Inl (Exception ''boom'')) ?y)
       default_gallery0 ''u1'' 1 1 0 =
     (Inr \<lparr>status = False, data = Some [], message = ''Error retrieving gallery entries: boom''\<rparr>,
      1)"
    using a3 [THEN conjunct2, THEN conjunct2, THEN conjunct2, THEN conjunct2, THEN conjunct2, THEN conjunct2, THEN conjunct2, THEN conjunct2, THEN conjunct2, THEN conjunct2, THEN conjunct2, THEN conjunct2, THEN conjunct1] by (simp add: get_fixed_manager u k)
  have 12: "list_gallery_entries (staged_manager (Inr ?none) (Inl (Exception ''boom''))
       (Inr refused) ?y) default_gallery0 ''u1'' 1 1 0 =
     (Inr \<lparr>status = False, data = Some [], message = ''Error retrieving gallery entries: boom''\<rparr>,
      1)"
    using a4 [THEN conjunct2, THEN conjunct2, THEN conjunct2, THEN conjunct2, THEN conjunct2, THEN conjunct2, THEN conjunct2, THEN conjunct2, THEN conjunct2, THEN conjunct2, THEN conjunct2, THEN conjunct2, THEN conjunct2, THEN conjunct1] by (simp add: get_staged_manager upsert_staged_manager k)
  from 1 2 3 4 5 6 7 8 9 10 11 12 show ?thesis by (intro conjI)
qed

text \<open>
  The claim as first stated, HTTP 500 with the unchanged text on every route, fails on
  \<^verbatim>\<open>list_gallery_entries\<close>, which answers with a response instead of raising and puts a
  prefix before the text, and on the session lookup of \<^verbatim>\<open>create_run\<close>, whose exception
  leaves the handler as it is.
\<close>

theorem handled_exceptions_counterexample:
  "list_gallery_entries (fixed_manager (Inl (Exception ''database is locked''))
       (Inl (Exception [])) (Inl (Exception []))) default_gallery0 ''u1'' 1 1 0 =
     (Inr \<lparr>status = False, data = Some [],
           message = ''Error retrieving gallery entries: database is locked''\<rparr>, 0) \<and>
   create_run (fixed_manager (Inl (Exception ''database is locked'')) (Inl (Exception []))
       (Inl (Exception []))) 1 ''u1'' 1 1 0 =
     (Inl (Raised (Exception ''database is locked'')), 0)"
  by (simp add: list_gallery_entries_def list_gallery_entries_try_def create_run_def
      get_fixed_manager)

end
